theory Spec2Isabelle
  imports Complex_Main "HOL-Library.Word"
begin

unbundle bit_operations_syntax

section \<open>JavaScript strings and values\<close>

text \<open>
  The two edge functions \<^verbatim>\<open>supabase/functions/payment-webhook/index.ts\<close> and
  \<^verbatim>\<open>supabase/functions/create-payment/index.ts\<close> are embedded as HOL functions.
  A JavaScript string is a \<^typ>\<open>string\<close> whose characters are read as the code points
  U+0000 to U+00FF. A field read off a parsed JSON object is a \<^typ>\<open>string option\<close>:
  \<open>None\<close> is \<^verbatim>\<open>undefined\<close> (the field is absent), \<open>Some s\<close> is the string \<open>s\<close>.
\<close>

type_synonym byte = "8 word"
type_synonym w64 = "64 word"

text \<open>\<^verbatim>\<open>!v\<close>: \<^verbatim>\<open>undefined\<close> and the empty string are falsy, every other string is truthy.\<close>

definition falsy :: "string option \<Rightarrow> bool" where
  "falsy v = (case v of None \<Rightarrow> True | Some s \<Rightarrow> s = [])"

text \<open>A template-literal hole \<^verbatim>\<open>${v}\<close>: \<^verbatim>\<open>undefined\<close> is rendered as the text "undefined".\<close>

definition template :: "string option \<Rightarrow> string" where
  "template v = (case v of None \<Rightarrow> ''undefined'' | Some s \<Rightarrow> s)"

fun startsWith :: "string \<Rightarrow> string \<Rightarrow> bool" where
  "startsWith s [] = True"
| "startsWith [] (c # cs) = False"
| "startsWith (x # xs) (c # cs) = (x = c \<and> startsWith xs cs)"

text \<open>\<^verbatim>\<open>s.includes(sub)\<close>: \<open>sub\<close> occurs in \<open>s\<close> as a contiguous substring.\<close>

fun includes_str :: "string \<Rightarrow> string \<Rightarrow> bool" where
  "includes_str [] sub = (sub = [])"
| "includes_str (x # xs) sub = (startsWith (x # xs) sub \<or> includes_str xs sub)"

text \<open>\<^verbatim>\<open>new TextEncoder().encode(s)\<close>: UTF-8, one byte below U+0080 and two bytes up to U+00FF.\<close>

definition utf8_char :: "char \<Rightarrow> byte list" where
  "utf8_char c =
     (let n = (of_char c :: nat)
      in if n < 128 then [of_nat n] else [of_nat (192 + n div 64), of_nat (128 + n mod 64)])"

definition encode :: "string \<Rightarrow> byte list" where
  "encode s = concat (map utf8_char s)"

text \<open>\<^verbatim>\<open>n.toString(16)\<close> for a non-negative integer: lowercase digits, no leading zero.\<close>

definition digit16 :: "nat \<Rightarrow> char" where
  "digit16 d = ''0123456789abcdef'' ! (d mod 16)"

function toString16 :: "nat \<Rightarrow> string" where
  "toString16 n = (if n < 16 then [digit16 n] else toString16 (n div 16) @ [digit16 (n mod 16)])"
  by pat_completeness auto
termination
  by (relation "measure id") auto

declare toString16.simps [simp del]

text \<open>\<^verbatim>\<open>s.padStart(n, c)\<close> with a one-character pad: \<open>s\<close> itself once it has \<open>n\<close> characters.\<close>

definition padStart :: "nat \<Rightarrow> char \<Rightarrow> string \<Rightarrow> string" where
  "padStart n c s = replicate (n - length s) c @ s"

section \<open>The runtime's SHA-512\<close>

text \<open>
  \<^verbatim>\<open>crypto.subtle.digest('SHA-512', data)\<close> is the runtime's implementation of SHA-512
  (FIPS 180-4): the message is padded to a multiple of 128 bytes, cut into blocks of sixteen
  big-endian 64-bit words, and each block is compressed into the eight-word state. The
  round constants are the first 64 bits of the fractional parts of the cube roots of the
  first eighty primes, the initial state those of the square roots of the first eight.
\<close>

definition sha512_K :: "w64 list" where
  "sha512_K = [
      4794697086780616226, 8158064640168781261, 13096744586834688815, 16840607885511220156,
      4131703408338449720, 6480981068601479193, 10538285296894168987, 12329834152419229976,
      15566598209576043074, 1334009975649890238, 2608012711638119052, 6128411473006802146,
      8268148722764581231, 9286055187155687089, 11230858885718282805, 13951009754708518548,
      16472876342353939154, 17275323862435702243, 1135362057144423861, 2597628984639134821,
      3308224258029322869, 5365058923640841347, 6679025012923562964, 8573033837759648693,
      10970295158949994411, 12119686244451234320, 12683024718118986047, 13788192230050041572,
      14330467153632333762, 15395433587784984357, 489312712824947311, 1452737877330783856,
      2861767655752347644, 3322285676063803686, 5560940570517711597, 5996557281743188959,
      7280758554555802590, 8532644243296465576, 9350256976987008742, 10552545826968843579,
      11727347734174303076, 12113106623233404929, 14000437183269869457, 14369950271660146224,
      15101387698204529176, 15463397548674623760, 17586052441742319658, 1182934255886127544,
      1847814050463011016, 2177327727835720531, 2830643537854262169, 3796741975233480872,
      4115178125766777443, 5681478168544905931, 6601373596472566643, 7507060721942968483,
      8399075790359081724, 8693463985226723168, 9568029438360202098, 10144078919501101548,
      10430055236837252648, 11840083180663258601, 13761210420658862357, 14299343276471374635,
      14566680578165727644, 15097957966210449927, 16922976911328602910, 17689382322260857208,
      500013540394364858, 748580250866718886, 1242879168328830382, 1977374033974150939,
      2944078676154940804, 3659926193048069267, 4368137639120453308, 4836135668995329356,
      5532061633213252278, 6448918945643986474, 6902733635092675308, 7801388544844847127]"

definition sha512_H0 :: "w64 list" where
  "sha512_H0 = [
      7640891576956012808, 13503953896175478587, 4354685564936845355, 11912009170470909681,
      5840696475078001361, 11170449401992604703, 2270897969802886507, 6620516959819538809]"

definition rotr :: "nat \<Rightarrow> w64 \<Rightarrow> w64" where
  "rotr n x = drop_bit n x OR push_bit (64 - n) x"

definition Ch :: "w64 \<Rightarrow> w64 \<Rightarrow> w64 \<Rightarrow> w64" where
  "Ch x y z = (x AND y) XOR (NOT x AND z)"

definition Maj :: "w64 \<Rightarrow> w64 \<Rightarrow> w64 \<Rightarrow> w64" where
  "Maj x y z = (x AND y) XOR (x AND z) XOR (y AND z)"

definition Sigma0 :: "w64 \<Rightarrow> w64" where
  "Sigma0 x = rotr 28 x XOR rotr 34 x XOR rotr 39 x"

definition Sigma1 :: "w64 \<Rightarrow> w64" where
  "Sigma1 x = rotr 14 x XOR rotr 18 x XOR rotr 41 x"

definition sigma0 :: "w64 \<Rightarrow> w64" where
  "sigma0 x = rotr 1 x XOR rotr 8 x XOR drop_bit 7 x"

definition sigma1 :: "w64 \<Rightarrow> w64" where
  "sigma1 x = rotr 19 x XOR rotr 61 x XOR drop_bit 6 x"

text \<open>The \<open>k\<close> low bytes of a word, most significant first.\<close>

fun be_bytes :: "nat \<Rightarrow> 'a::len word \<Rightarrow> byte list" where
  "be_bytes 0 v = []"
| "be_bytes (Suc k) v = be_bytes k (drop_bit 8 v) @ [ucast v]"

definition sha512_pad :: "byte list \<Rightarrow> byte list" where
  "sha512_pad m =
     m @ [0x80] @ replicate ((239 - length m mod 128) mod 128) 0
       @ be_bytes 16 (of_nat (8 * length m) :: 128 word)"

fun be_word :: "byte list \<Rightarrow> w64" where
  "be_word [] = 0"
| "be_word (b # bs) = push_bit (8 * length bs) (ucast b) OR be_word bs"

fun words_of :: "nat \<Rightarrow> byte list \<Rightarrow> w64 list" where
  "words_of 0 bs = []"
| "words_of (Suc n) bs = be_word (take 8 bs) # words_of n (drop 8 bs)"

text \<open>The message schedule, newest word first: the head of the list is \<open>W\<^sub>t\<^sub>-\<^sub>1\<close>.\<close>

fun schedule :: "nat \<Rightarrow> w64 list \<Rightarrow> w64 list" where
  "schedule 0 ws = ws"
| "schedule (Suc n) ws =
     schedule n ((sigma1 (ws ! 1) + ws ! 6 + sigma0 (ws ! 14) + ws ! 15) # ws)"

type_synonym sha_state = "w64 \<times> w64 \<times> w64 \<times> w64 \<times> w64 \<times> w64 \<times> w64 \<times> w64"

fun sha512_round :: "sha_state \<Rightarrow> w64 \<times> w64 \<Rightarrow> sha_state" where
  "sha512_round (a, b, c, d, e, f, g, h) (k, w) =
     (let t1 = h + Sigma1 e + Ch e f g + k + w;
          t2 = Sigma0 a + Maj a b c
      in (t1 + t2, a, b, c, d + t1, e, f, g))"

fun sha512_block :: "w64 list \<Rightarrow> byte list \<Rightarrow> w64 list" where
  "sha512_block [h0, h1, h2, h3, h4, h5, h6, h7] blk =
     (let ws = rev (schedule 64 (rev (words_of 16 blk)));
          (a, b, c, d, e, f, g, h) =
             foldl sha512_round (h0, h1, h2, h3, h4, h5, h6, h7) (zip sha512_K ws)
      in [h0 + a, h1 + b, h2 + c, h3 + d, h4 + e, h5 + f, h6 + g, h7 + h])"
| "sha512_block hs blk = hs"

fun sha512_blocks :: "nat \<Rightarrow> w64 list \<Rightarrow> byte list \<Rightarrow> w64 list" where
  "sha512_blocks 0 hs bs = hs"
| "sha512_blocks (Suc n) hs bs = sha512_blocks n (sha512_block hs (take 128 bs)) (drop 128 bs)"

definition sha512 :: "byte list \<Rightarrow> byte list" where
  "sha512 m =
     (let p = sha512_pad m
      in concat (map (be_bytes 8) (sha512_blocks (length p div 128) sha512_H0 p)))"

section \<open>The store\<close>

text \<open>
  The tables the two functions touch. \<open>status\<close> of a payment only ever holds the three
  literals the code writes: \<^verbatim>\<open>'pending'\<close>, \<^verbatim>\<open>'settlement'\<close>, \<^verbatim>\<open>'failed'\<close>.
\<close>

datatype payment_status = Pending | Settlement | Failed

record payment =
  p_id :: string
  p_user_id :: string
  p_course_id :: string
  p_amount :: real
  midtrans_order_id :: string
  p_status :: payment_status
  midtrans_transaction_id :: "string option"
  p_payment_type :: "string option"

record enrollment =
  e_user_id :: string
  e_course_id :: string
  progress :: nat

record course =
  c_id :: string
  price :: real
  is_free :: bool

record db =
  payments :: "payment list"
  enrollments :: "enrollment list"
  courses :: "course list"

datatype body =
    NoBody
  | ErrorBody string
  | SuccessBody
  | PaymentBody "string option" string "string option"
  | OtherBody

record response =
  http_status :: nat
  http_body :: body

datatype log_entry = ConsoleLog string | ConsoleError string "string option"

text \<open>
  \<^verbatim>\<open>.from('payments').update({status}).eq('midtrans_order_id', orderId).select().single()\<close>:
  the rows with that order id get the new status and the updated row is returned; with
  \<^verbatim>\<open>.single()\<close> the store answers with an error, and applies nothing, unless exactly one row
  matches. \<open>fault\<close> is a failure of the store itself, with its message.
\<close>

definition single_row_error :: string where
  "single_row_error = ''JSON object requested, multiple (or no) rows returned''"

definition update_payment_status ::
  "string option \<Rightarrow> string \<Rightarrow> payment_status \<Rightarrow> db \<Rightarrow> (string + payment) \<times> db" where
  "update_payment_status fault orderId st d =
     (case fault of
        Some m \<Rightarrow> (Inl m, d)
      | None \<Rightarrow>
          (case filter (\<lambda>p. midtrans_order_id p = orderId) (payments d) of
             [p] \<Rightarrow>
               (Inr (p\<lparr>p_status := st\<rparr>),
                d\<lparr>payments :=
                     map (\<lambda>q. if midtrans_order_id q = orderId then q\<lparr>p_status := st\<rparr> else q)
                       (payments d)\<rparr>)
           | _ \<Rightarrow> (Inl single_row_error, d)))"

text \<open>
  The store's error for a violated uniqueness constraint: the beginning of its message (the
  name of the constraint follows it).
\<close>

definition duplicate_key_error :: string where
  "duplicate_key_error = ''duplicate key value violates unique constraint''"

text \<open>
  Modelled from the spec: the uniqueness constraint on (userId, courseId) of table
  \<^verbatim>\<open>enrollments\<close>, whose schema is not among the sources: an insert for a pair that has a row
  fails with the duplicate-key error, which the code expects as a message containing
  "duplicate". The rest is the code's \<^verbatim>\<open>.from('enrollments').insert({user_id, course_id,
  progress: 0})\<close>: the error, if any, and the store. \<open>fault\<close> is a failure of the store itself,
  with its message.
\<close>

definition insert_enrollment :: "string option \<Rightarrow> enrollment \<Rightarrow> db \<Rightarrow> string option \<times> db" where
  "insert_enrollment fault row d =
     (case fault of
        Some m \<Rightarrow> (Some m, d)
      | None \<Rightarrow>
          if list_ex (\<lambda>e. e_user_id e = e_user_id row \<and> e_course_id e = e_course_id row)
               (enrollments d)
          then (Some duplicate_key_error, d)
          else (None, d\<lparr>enrollments := enrollments d @ [row]\<rparr>))"

section \<open>payment-webhook\<close>

record notification =
  order_id :: "string option"
  status_code :: "string option"
  gross_amount :: "string option"
  signature_key :: "string option"
  transaction_status :: "string option"
  fraud_status :: "string option"

text \<open>
  Lines 17 to 22 of \<^verbatim>\<open>verifyMidtransSignature\<close>: the hexadecimal rendering of the digest of
  the concatenated fields.
\<close>

definition calculatedSignature ::
  "string option \<Rightarrow> string option \<Rightarrow> string option \<Rightarrow> string option \<Rightarrow> string" where
  "calculatedSignature orderId statusCode grossAmount serverKey =
     (let signatureString =
            template orderId @ template statusCode @ template grossAmount @ template serverKey;
          data = encode signatureString;
          hashArray = sha512 data
      in concat (map (\<lambda>b. padStart 2 CHR ''0'' (toString16 (unat b))) hashArray))"

definition verifyMidtransSignature ::
  "string option \<Rightarrow> string option \<Rightarrow> string option \<Rightarrow> string option \<Rightarrow> string option \<Rightarrow> bool"
  where
  "verifyMidtransSignature orderId statusCode grossAmount serverKey signatureKey =
     (Some (calculatedSignature orderId statusCode grossAmount serverKey) = signatureKey)"

text \<open>Lines 81 to 91: the gateway's vocabulary mapped to the stored status.\<close>

definition paymentStatus :: "string option \<Rightarrow> string option \<Rightarrow> payment_status" where
  "paymentStatus transactionStatus fraudStatus =
     (if transactionStatus = Some ''capture'' then
        (if fraudStatus = Some ''accept'' then Settlement else Pending)
      else if transactionStatus = Some ''settlement'' then Settlement
      else if transactionStatus \<in> set (map Some [''cancel'', ''deny'', ''expire'']) then Failed
      else Pending)"

text \<open>
  What a request meets outside the store: the server key of the environment, and whether the
  store fails on the update or on the insert (with the error's message).
\<close>

record webhook_env =
  MIDTRANS_SERVER_KEY :: "string option"
  update_fault :: "string option"
  insert_fault :: "string option"

definition json_response :: "nat \<Rightarrow> body \<Rightarrow> response" where
  "json_response code b = \<lparr>http_status = code, http_body = b\<rparr>"

text \<open>
  Lines 77 to 124, reached once the notification is authenticated: the status is written to
  the payment with the notification's order id, and a settlement inserts the enrollment.
  The result is \<open>Inl m\<close> when the code throws \<^verbatim>\<open>Error(m)\<close> and \<open>Inr\<close> of the response it
  returns otherwise, with the store and the console lines written.
\<close>

definition apply_transition ::
  "webhook_env \<Rightarrow> notification \<Rightarrow> db \<Rightarrow> (string + response) \<times> db \<times> log_entry list" where
  "apply_transition env n d =
     (let orderId = template (order_id n);
          st = paymentStatus (transaction_status n) (fraud_status n)
      in case update_payment_status (update_fault env) orderId st d of
           (Inl updateError, d') \<Rightarrow>
             (Inl ''Failed to update payment'', d',
              [ConsoleError ''Error updating payment:'' (Some updateError)])
         | (Inr payment, d') \<Rightarrow>
             if st = Settlement then
               (case insert_enrollment (insert_fault env)
                       \<lparr>e_user_id = p_user_id payment,
                        e_course_id = p_course_id payment, progress = 0\<rparr> d' of
                  (enrollError, d'') \<Rightarrow>
                    (Inr (json_response 200 SuccessBody), d'',
                     (case enrollError of
                        None \<Rightarrow> []
                      | Some m \<Rightarrow>
                          if \<not> includes_str m ''duplicate''
                          then [ConsoleError ''Error creating enrollment:'' (Some m)]
                          else [])))
             else (Inr (json_response 200 SuccessBody), d', []))"

text \<open>
  What \<^verbatim>\<open>req.json()\<close> returns when it does not throw. The destructuring on line 51 throws a
  \<^verbatim>\<open>TypeError\<close> on \<^verbatim>\<open>null\<close>; on every other value it reads the four fields, each absent
  unless the value is an object that has it. \<open>BodyNull\<close> is the body \<^verbatim>\<open>null\<close>, and
  \<open>BodyFields n\<close> any other body, with the fields the handler reads off it.
\<close>

datatype parsed_body = BodyNull | BodyFields notification

text \<open>The runtime's message for the destructuring of \<^verbatim>\<open>null\<close> on line 51.\<close>

definition destructure_null_error :: string where
  "destructure_null_error =
     ''Cannot destructure property 'order_id' of 'notification' as it is null.''"

text \<open>
  The \<^verbatim>\<open>try\<close> block of the handler. The request body is \<open>Inl m\<close> when \<^verbatim>\<open>req.json()\<close> throws an
  error with message \<open>m\<close>, and \<open>Inr\<close> of the parsed value otherwise. The server key is
  checked before the fields are read off the body.
\<close>

definition webhook_try ::
  "webhook_env \<Rightarrow> string + parsed_body \<Rightarrow> db \<Rightarrow> (string + response) \<times> db \<times> log_entry list"
  where
  "webhook_try env req d =
     (case req of
        Inl m \<Rightarrow> (Inl m, d, [])
      | Inr b \<Rightarrow>
          (let logs = [ConsoleLog ''Received Midtrans notification:''];
               serverKey = MIDTRANS_SERVER_KEY env
           in if falsy serverKey then
                (Inr (json_response 500 (ErrorBody ''Server configuration error'')), d,
                 logs @ [ConsoleError ''MIDTRANS_SERVER_KEY not configured'' None])
              else
                (case b of
                   BodyNull \<Rightarrow> (Inl destructure_null_error, d, logs)
                 | BodyFields n \<Rightarrow>
                     if falsy (signature_key n) then
                       (Inr (json_response 401 (ErrorBody ''Invalid request'')), d,
                        logs @ [ConsoleError ''Missing signature_key in notification'' None])
                     else if \<not> verifyMidtransSignature (order_id n) (status_code n)
                                (gross_amount n) serverKey (signature_key n) then
                       (Inr (json_response 401 (ErrorBody ''Invalid signature'')), d,
                        logs @ [ConsoleError ''Invalid Midtrans signature'' None])
                     else
                       (case apply_transition env n d of
                          (r, d', logs') \<Rightarrow> (r, d', logs @ logs')))))"

text \<open>The handler with its \<^verbatim>\<open>catch\<close> block: a thrown error is answered with its own message.\<close>

definition handleNotification ::
  "webhook_env \<Rightarrow> string + parsed_body \<Rightarrow> db \<Rightarrow> response \<times> db \<times> log_entry list" where
  "handleNotification env req d =
     (case webhook_try env req d of
        (Inl errorMessage, d', logs) \<Rightarrow>
          (json_response 400 (ErrorBody errorMessage), d',
           logs @ [ConsoleError ''Webhook error:'' (Some errorMessage)])
      | (Inr r, d', logs) \<Rightarrow> (r, d', logs))"

text \<open>The function given to \<^verbatim>\<open>serve\<close>: a pre-flight request is answered before anything is read.\<close>

definition payment_webhook ::
  "string \<Rightarrow> webhook_env \<Rightarrow> string + parsed_body \<Rightarrow> db \<Rightarrow> response \<times> db \<times> log_entry list"
  where
  "payment_webhook method env req d =
     (if method = ''OPTIONS'' then (json_response 200 NoBody, d, [])
      else handleNotification env req d)"

text \<open>The three components of a handler's result.\<close>

definition response_of :: "response \<times> db \<times> log_entry list \<Rightarrow> response" where
  "response_of x = fst x"

definition store_of :: "response \<times> db \<times> log_entry list \<Rightarrow> db" where
  "store_of x = fst (snd x)"

definition console_of :: "response \<times> db \<times> log_entry list \<Rightarrow> log_entry list" where
  "console_of x = snd (snd x)"

section \<open>create-payment\<close>

text \<open>\<^verbatim>\<open>s.replace(pat, rep)\<close> with a string pattern: the first occurrence only.\<close>

fun replace_first :: "string \<Rightarrow> string \<Rightarrow> string \<Rightarrow> string" where
  "replace_first pat rep [] = (if pat = [] then rep else [])"
| "replace_first pat rep (x # xs) =
     (if startsWith (x # xs) pat then rep @ drop (length pat) (x # xs)
      else x # replace_first pat rep xs)"

text \<open>\<^verbatim>\<open>a || b\<close> on strings that may be \<^verbatim>\<open>undefined\<close>.\<close>

definition js_or :: "string option \<Rightarrow> string option \<Rightarrow> string option" where
  "js_or a b = (if falsy a then b else a)"

text \<open>A non-negative integer in a template literal: its decimal digits.\<close>

function decimal :: "nat \<Rightarrow> string" where
  "decimal n = (if n < 10 then [digit16 n] else decimal (n div 10) @ [digit16 (n mod 10)])"
  by pat_completeness auto
termination
  by (relation "measure id") auto

declare decimal.simps [simp del]

text \<open>
  \<^verbatim>\<open>getUserMessage\<close>: the table \<^verbatim>\<open>errorMap\<close>, looked up with the error's message. The lookup
  \<^verbatim>\<open>errorMap[m]\<close> also finds what an object literal inherits (\<^verbatim>\<open>constructor\<close>,
  \<^verbatim>\<open>toString\<close>, ...): these are no strings, the result is \<open>None\<close> there, and the response
  body then holds no error string (\<open>OtherBody\<close>).
\<close>

definition errorMap :: "(string \<times> string) list" where
  "errorMap =
     [(''Missing authorization header'', ''Authentication required. Please log in.''),
      (''Unauthorized'', ''Authentication required. Please log in.''),
      (''Missing required fields'', ''Invalid payment request. Please try again.''),
      (''Course not found'', ''The selected course does not exist or is not available.''),
      (''Price mismatch'', ''The payment amount does not match the course price.''),
      (''Failed to create payment record'',
       ''Payment processing is temporarily unavailable. Please try again later.''),
      (''Failed to create Midtrans transaction'',
       ''Payment provider is temporarily unavailable. Please try again later.'')]"

definition default_message :: string where
  "default_message =
     ''An unexpected error occurred. Please contact support if the issue persists.''"

definition inherited_members :: "string list" where
  "inherited_members =
     [''constructor'', ''toString'', ''toLocaleString'', ''valueOf'', ''hasOwnProperty'',
      ''isPrototypeOf'', ''propertyIsEnumerable'', ''__proto__'', ''__defineGetter__'',
      ''__defineSetter__'', ''__lookupGetter__'', ''__lookupSetter__'']"

definition getUserMessage :: "string \<Rightarrow> string option" where
  "getUserMessage message =
     (case map_of errorMap message of
        Some text \<Rightarrow> Some text
      | None \<Rightarrow> if message \<in> set inherited_members then None else Some default_message)"

text \<open>
  \<^verbatim>\<open>paymentRequestSchema\<close> on a body whose \<^verbatim>\<open>courseId\<close> is a string and whose \<^verbatim>\<open>amount\<close> is a
  number: the messages of the checks that fail, in order. The identifier format is the one
  the validation library accepts: 8, 4, 4, 4 and 12 hexadecimal digits between hyphens.
\<close>

definition is_hex_digit :: "char \<Rightarrow> bool" where
  "is_hex_digit c = (c \<in> set ''0123456789abcdefABCDEF'')"

fun uuid_groups :: "nat list \<Rightarrow> string \<Rightarrow> bool" where
  "uuid_groups [] s = False"
| "uuid_groups [k] s = (length s = k \<and> list_all is_hex_digit s)"
| "uuid_groups (k # ks) s =
     (list_all is_hex_digit (take k s) \<and> length (take k s) = k \<and>
      take 1 (drop k s) = ''-'' \<and> uuid_groups ks (drop (Suc k) s))"

definition is_uuid :: "string \<Rightarrow> bool" where
  "is_uuid s = uuid_groups [8, 4, 4, 4, 12] s"

definition paymentRequestSchema :: "string \<Rightarrow> real \<Rightarrow> string list" where
  "paymentRequestSchema courseId amount =
     (if is_uuid courseId then [] else [''Invalid course ID format'']) @
     (if 0 < amount then [] else [''Amount must be positive'']) @
     (if 1 \<le> amount then [] else [''Amount must be at least 1''])"

text \<open>
  The body of a request: \<^verbatim>\<open>req.json()\<close> throws an error with a message, or the parsed value
  has a missing or ill-typed field (the library's messages for it are given), or it has
  both fields with their types.
\<close>

datatype request_body =
    Malformed string
  | IllTyped "string list"
  | Body string real

record user =
  u_id :: string
  u_email :: "string option"

record charge_request =
  cr_payment_type :: string
  cr_order_id :: string
  cr_gross_amount :: real
  cr_first_name :: string
  cr_email :: "string option"

record midtrans_response =
  ok :: bool
  transaction_id :: "string option"
  mr_payment_type :: "string option"
  actions :: "(string \<times> string option) list option"
  redirect_url :: "string option"

text \<open>
  What a request meets outside the store: the identity service, the clock, the environment,
  the profile of a user, the gateway (\<open>Inl m\<close> when the call or the decoding of its answer
  throws), and whether the store fails on the insert or on the later update.
\<close>

record payment_env =
  getUser :: "string \<Rightarrow> user option"
  now :: nat
  PAY_SERVER_KEY :: "string option"
  MIDTRANS_IS_PRODUCTION :: "string option"
  profile_full_name :: "string \<Rightarrow> string option"
  fetch :: "string \<Rightarrow> string \<Rightarrow> charge_request \<Rightarrow> string + midtrans_response"
  payment_insert_fault :: "string option"
  new_payment_id :: string
  payment_update_fault :: bool

text \<open>\<^verbatim>\<open>.from('courses').select(...).eq('id', courseId).single()\<close>: the one row with that id.\<close>

definition select_course :: "string \<Rightarrow> db \<Rightarrow> string + course" where
  "select_course courseId d =
     (case filter (\<lambda>c. c_id c = courseId) (courses d) of
        [c] \<Rightarrow> Inr c
      | _ \<Rightarrow> Inl single_row_error)"

definition insert_payment :: "string option \<Rightarrow> payment \<Rightarrow> db \<Rightarrow> (string + payment) \<times> db" where
  "insert_payment fault row d =
     (case fault of
        Some m \<Rightarrow> (Inl m, d)
      | None \<Rightarrow> (Inr row, d\<lparr>payments := payments d @ [row]\<rparr>))"

text \<open>The update after the charge: its outcome is not read.\<close>

definition update_payment_transaction ::
  "bool \<Rightarrow> string \<Rightarrow> string option \<Rightarrow> string option \<Rightarrow> db \<Rightarrow> db" where
  "update_payment_transaction fault pid tid ptype d =
     (if fault then d
      else d\<lparr>payments :=
             map (\<lambda>q. if p_id q = pid
                       then q\<lparr>midtrans_transaction_id := tid, p_payment_type := ptype\<rparr> else q)
               (payments d)\<rparr>)"

definition validation_message :: "string list \<Rightarrow> string" where
  "validation_message issues =
     (case issues of
        [] \<Rightarrow> ''Invalid input''
      | m # _ \<Rightarrow> if m = [] then ''Invalid input'' else m)"

definition payment_url :: "midtrans_response \<Rightarrow> string option" where
  "payment_url r =
     js_or (case actions r of
              None \<Rightarrow> None
            | Some as \<Rightarrow>
                (case find (\<lambda>a. fst a = ''generate-qr-code'') as of
                   None \<Rightarrow> None
                 | Some a \<Rightarrow> snd a))
           (redirect_url r)"

text \<open>
  Lines 86 to 167, reached with the user, the validated body and a price that is accepted.
\<close>

definition charge ::
  "payment_env \<Rightarrow> user \<Rightarrow> string \<Rightarrow> real \<Rightarrow> db \<Rightarrow> (string + response) \<times> db \<times> log_entry list"
  where
  "charge env u courseId amount d =
     (let orderId = ''ORDER-'' @ decimal (now env) @ ''-'' @ take 8 (u_id u)
      in case insert_payment (payment_insert_fault env)
                \<lparr>p_id = new_payment_id env, p_user_id = u_id u, p_course_id = courseId,
                 p_amount = amount, midtrans_order_id = orderId, p_status = Pending,
                 midtrans_transaction_id = None, p_payment_type = None\<rparr> d of
           (Inl paymentError, d') \<Rightarrow>
             (Inl ''Failed to create payment record'', d',
              [ConsoleError ''Payment creation error:'' (Some paymentError)])
         | (Inr payment, d') \<Rightarrow>
             (let midtransUrl =
                    (if MIDTRANS_IS_PRODUCTION env = Some ''true''
                     then ''https://api.midtrans.com/v2/charge''
                     else ''https://api.sandbox.midtrans.com/v2/charge'');
                  midtransPayload =
                    \<lparr>cr_payment_type = ''gopay'', cr_order_id = orderId,
                     cr_gross_amount = amount,
                     cr_first_name =
                       template (js_or (profile_full_name env (u_id u)) (Some ''User'')),
                     cr_email = u_email u\<rparr>
              in case fetch env midtransUrl (template (PAY_SERVER_KEY env) @ '':'')
                        midtransPayload of
                   Inl m \<Rightarrow> (Inl m, d', [])
                 | Inr midtransData \<Rightarrow>
                     if \<not> ok midtransData then
                       (Inl ''Failed to create Midtrans transaction'', d',
                        [ConsoleError ''Midtrans error:'' None])
                     else
                       (Inr (json_response 200
                               (PaymentBody (payment_url midtransData) orderId
                                  (transaction_id midtransData))),
                        update_payment_transaction (payment_update_fault env) (p_id payment)
                          (transaction_id midtransData) (mr_payment_type midtransData) d',
                        [])))"

text \<open>The \<^verbatim>\<open>try\<close> block of the handler, with the value of the \<^verbatim>\<open>Authorization\<close> header.\<close>

definition create_payment_try ::
  "payment_env \<Rightarrow> string option \<Rightarrow> request_body \<Rightarrow> db
     \<Rightarrow> (string + response) \<times> db \<times> log_entry list" where
  "create_payment_try env authHeader req d =
     (if falsy authHeader then (Inl ''Missing authorization header'', d, [])
      else
        case getUser env (replace_first ''Bearer '' [] (template authHeader)) of
          None \<Rightarrow> (Inl ''Unauthorized'', d, [])
        | Some u \<Rightarrow>
            (case req of
               Malformed m \<Rightarrow> (Inl m, d, [])
             | IllTyped issues \<Rightarrow>
                 (Inr (json_response 400 (ErrorBody (validation_message issues))), d,
                  [ConsoleError ''Validation error:'' None])
             | Body courseId amount \<Rightarrow>
                 if paymentRequestSchema courseId amount \<noteq> [] then
                   (Inr (json_response 400
                           (ErrorBody
                              (validation_message (paymentRequestSchema courseId amount)))),
                    d, [ConsoleError ''Validation error:'' None])
                 else
                   (case select_course courseId d of
                      Inl courseError \<Rightarrow> (Inl ''Course not found'', d, [])
                    | Inr course \<Rightarrow>
                        if \<not> is_free course \<and> price course \<noteq> amount
                        then (Inl ''Price mismatch'', d, [])
                        else charge env u courseId amount d)))"

text \<open>
  The handler with its \<^verbatim>\<open>catch\<close> block: a thrown error is logged, and answered with the text
  \<^verbatim>\<open>getUserMessage\<close> gives for it.
\<close>

definition create_payment_handler ::
  "payment_env \<Rightarrow> string option \<Rightarrow> request_body \<Rightarrow> db \<Rightarrow> response \<times> db \<times> log_entry list"
  where
  "create_payment_handler env authHeader req d =
     (case create_payment_try env authHeader req d of
        (Inl message, d', logs) \<Rightarrow>
          (json_response 400
             (case getUserMessage message of
                Some userMessage \<Rightarrow> ErrorBody userMessage
              | None \<Rightarrow> OtherBody),
           d', logs @ [ConsoleError ''Payment creation error:'' (Some message)])
      | (Inr r, d', logs) \<Rightarrow> (r, d', logs))"

definition create_payment ::
  "string \<Rightarrow> payment_env \<Rightarrow> string option \<Rightarrow> request_body \<Rightarrow> db
     \<Rightarrow> response \<times> db \<times> log_entry list" where
  "create_payment method env authHeader req d =
     (if method = ''OPTIONS'' then (json_response 200 NoBody, d, [])
      else create_payment_handler env authHeader req d)"

section \<open>The specification's side\<close>

text \<open>
  Lowercase hexadecimal as the specification words it: two digits for every byte, the high
  half first, the digits \<open>0\<close> to \<open>9\<close> and \<open>a\<close> to \<open>f\<close> by their character codes.
\<close>

definition hex_digit :: "nat \<Rightarrow> char" where
  "hex_digit d = (if d < 10 then char_of (48 + d) else char_of (87 + d))"

definition lowercase_hex :: "byte list \<Rightarrow> string" where
  "lowercase_hex bs =
     concat (map (\<lambda>b. [hex_digit (unat b div 16), hex_digit (unat b mod 16)]) bs)"

text \<open>The texts \<^verbatim>\<open>getUserMessage\<close> can give: the right-hand sides of its table and its default.\<close>

definition client_messages :: "string list" where
  "client_messages = map snd errorMap @ [default_message]"

section \<open>A worked example\<close>

text \<open>
  A sandbox server key, a pending payment of 100000 for a course of that price, and the
  gateway's settlement notification for it. \<open>signature_a\<close> is the SHA-512 digest of
  \<^verbatim>\<open>ORDER-1700000000000-a1b2c3d4200100000.00SB-Mid-server-TEST\<close> in hexadecimal.
\<close>

definition key_a :: string where
  "key_a = ''SB-Mid-server-TEST''"

definition env_a :: webhook_env where
  "env_a = \<lparr>MIDTRANS_SERVER_KEY = Some key_a, update_fault = None, insert_fault = None\<rparr>"

definition signature_a :: string where
  "signature_a =
     ''6581097fe3095715f4b64ea959ee9874a385a55c31e562277bea4f304d6940f0'' @
     ''1bbe508135375659fb890e62fd68716a82eb3b6338b52b69d5ed14bf0a70f6b4''"

definition settlement_a :: notification where
  "settlement_a =
     \<lparr>order_id = Some ''ORDER-1700000000000-a1b2c3d4'', status_code = Some ''200'',
      gross_amount = Some ''100000.00'', signature_key = Some signature_a,
      transaction_status = Some ''settlement'', fraud_status = None\<rparr>"

definition intent_a :: payment where
  "intent_a =
     \<lparr>p_id = ''7d0a5a0e-52a1-4c3f-9a50-0d6b7c1f2e01'',
      p_user_id = ''a1b2c3d4-5e6f-4a7b-8c9d-0e1f2a3b4c5d'',
      p_course_id = ''123e4567-e89b-12d3-a456-426614174000'',
      p_amount = 100000, midtrans_order_id = ''ORDER-1700000000000-a1b2c3d4'',
      p_status = Pending, midtrans_transaction_id = None, p_payment_type = None\<rparr>"

definition course_a :: course where
  "course_a =
     \<lparr>c_id = ''123e4567-e89b-12d3-a456-426614174000'', price = 100000, is_free = False\<rparr>"

definition enrolled_a :: enrollment where
  "enrolled_a =
     \<lparr>e_user_id = ''a1b2c3d4-5e6f-4a7b-8c9d-0e1f2a3b4c5d'',
      e_course_id = ''123e4567-e89b-12d3-a456-426614174000'', progress = 0\<rparr>"

definition db_a :: db where
  "db_a = \<lparr>payments = [intent_a], enrollments = [], courses = [course_a]\<rparr>"

definition user_a :: user where
  "user_a =
     \<lparr>u_id = ''a1b2c3d4-5e6f-4a7b-8c9d-0e1f2a3b4c5d'', u_email = Some ''learner@example.com''\<rparr>"

definition pay_env_a :: payment_env where
  "pay_env_a =
     \<lparr>getUser = (\<lambda>token. if token = ''token-a'' then Some user_a else None),
      now = 1700000000000,
      PAY_SERVER_KEY = Some key_a,
      MIDTRANS_IS_PRODUCTION = None,
      profile_full_name = (\<lambda>uid. None),
      fetch = (\<lambda>url credentials payload.
         Inr \<lparr>ok = True, transaction_id = Some ''tx-0001'', mr_payment_type = Some ''gopay'',
              actions =
                Some [(''generate-qr-code'',
                       Some ''https://api.sandbox.midtrans.com/v2/gopay/tx-0001/qr-code'')],
              redirect_url = None\<rparr>),
      payment_insert_fault = None,
      new_payment_id = ''7d0a5a0e-52a1-4c3f-9a50-0d6b7c1f2e01'',
      payment_update_fault = False\<rparr>"

lemmas fixtures = env_a_def key_a_def settlement_a_def signature_a_def db_a_def intent_a_def
  course_a_def enrolled_a_def user_a_def template_def

section \<open>Rendering bytes\<close>

lemma falsy_simps [simp]: "falsy None" "falsy (Some s) = (s = [])"
  by (simp_all add: falsy_def)

lemma digit16_hex_digit:
  assumes "d < 16"
  shows "digit16 d = hex_digit d"
proof -
  from assms have "d \<in> set [0..<16]" by simp
  then show ?thesis
    unfolding digit16_def hex_digit_def
    by (simp add: upt_rec) (elim disjE; simp add: of_char_eq_iff [where ?'a = nat, symmetric])
qed

lemma byte_toString16:
  assumes "n < 256"
  shows "padStart 2 CHR ''0'' (toString16 n) = [digit16 (n div 16), digit16 (n mod 16)]"
proof (cases "n < 16")
  case True
  then show ?thesis by (simp add: toString16.simps padStart_def digit16_def)
next
  case False
  with assms have "n div 16 < 16" by simp
  with False show ?thesis
    by (simp add: toString16.simps [of n] toString16.simps [of "n div 16"] padStart_def)
qed

lemma byte_render:
  "padStart 2 CHR ''0'' (toString16 (unat (b :: byte))) =
     [hex_digit (unat b div 16), hex_digit (unat b mod 16)]"
proof -
  have "unat b < 256" using unsigned_less [of b, where ?'a = nat] by simp
  then show ?thesis by (simp add: byte_toString16 digit16_hex_digit)
qed

lemma calculatedSignature_hex:
  "calculatedSignature orderId statusCode grossAmount serverKey =
     lowercase_hex (sha512 (encode (template orderId @ template statusCode @
        template grossAmount @ template serverKey)))"
  by (simp add: calculatedSignature_def lowercase_hex_def byte_render)

lemma length_lowercase_hex: "length (lowercase_hex bs) = 2 * length bs"
  by (induction bs) (simp_all add: lowercase_hex_def)

section \<open>The digest has 64 bytes\<close>

lemma length_sha512_block: "length hs = 8 \<Longrightarrow> length (sha512_block hs blk) = 8"
  by (cases "(hs, blk)" rule: sha512_block.cases) (simp_all add: Let_def split: prod.splits)

lemma length_sha512_blocks: "length hs = 8 \<Longrightarrow> length (sha512_blocks k hs bs) = 8"
  by (induction k arbitrary: hs bs) (simp_all add: length_sha512_block)

lemma length_be_bytes: "length (be_bytes k v) = k"
  by (induction k arbitrary: v) simp_all

lemma length_concat_const:
  "(\<And>x. x \<in> set xs \<Longrightarrow> length (f x) = k) \<Longrightarrow> length (concat (map f xs)) = k * length xs"
  by (induction xs) simp_all

lemma length_sha512: "length (sha512 m) = 64"
proof -
  have "length (sha512_blocks k sha512_H0 p) = 8" for k p
    by (rule length_sha512_blocks) (simp add: sha512_H0_def)
  then show ?thesis
    by (simp add: sha512_def Let_def length_concat_const [where k = 8] length_be_bytes)
qed

lemma length_calculatedSignature: "length (calculatedSignature a b c k) = 128"
  by (simp add: calculatedSignature_hex length_lowercase_hex length_sha512)

lemma calculatedSignature_not_empty: "calculatedSignature a b c k \<noteq> []"
  using length_calculatedSignature [of a b c k] by auto

section \<open>The digest of the worked example\<close>

text \<open>
  The digest is computed inside the logic, sixteen steps of the message schedule and eight
  rounds at a time: between two steps the words are reduced to their 64 bits.
\<close>

lemma schedule_numeral:
  "schedule (numeral k) ws =
     schedule (pred_numeral k) ((sigma1 (ws ! 1) + ws ! 6 + sigma0 (ws ! 14) + ws ! 15) # ws)"
  by (simp add: numeral_eq_Suc)

lemma words_of_numeral:
  "words_of (numeral k) bs = be_word (take 8 bs) # words_of (pred_numeral k) (drop 8 bs)"
  by (simp add: numeral_eq_Suc)

lemma be_bytes_numeral:
  "be_bytes (numeral k) v = be_bytes (pred_numeral k) (drop_bit 8 v) @ [ucast v]"
  by (simp add: numeral_eq_Suc)

lemma replicate_numeral: "replicate (numeral k) x = x # replicate (pred_numeral k) x"
  by (simp add: numeral_eq_Suc)

lemma foldl_chunk:
  "foldl f s [a, b, c, d, a', b', c', d'] = s' \<Longrightarrow>
   foldl f s (a # b # c # d # a' # b' # c' # d' # rest) = foldl f s' rest"
  by simp

lemma schedule_add: "schedule (a + b) ws = schedule b (schedule a ws)"
  by (induction a arbitrary: ws) simp_all

lemma schedule_64:
  "schedule 64 ws =
     schedule 16 (schedule 16 (schedule 16 (schedule 16 ws)))"
proof -
  have "schedule 64 ws = schedule (16 + (16 + (16 + 16))) ws"
    by simp
  then show ?thesis
    by (simp only: schedule_add)
qed

lemma order_a_schedule_16:
  "schedule 16
     (464 # 0 # 0 # 0 # 0 # 0 # 0 # 0 # 6004564940680069120 # 7310035323255084101 #
      5999407464114826611 # 3472328296227549232 # 7148167208910204977 # 3472328284164940338 #
      3472328296227680304 # 5715705941608706359 # rest) =
      8965314492811281210 # 5700742263801309541 # 3706301404024686871 # 15554064234674627774 #
      2506857902324731359 # 16915940567922634760 # 3780826306791985025 # 11925839679702763398 #
      13117697583813630771 # 15280021273854824343 # 17021698733940427563 # 9793596618515923793 #
      15876153493609381971 # 14020541893135521738 # 6535418461620543862 # 8618355376736532863 #
      464 # 0 # 0 # 0 # 0 # 0 # 0 # 0 # 6004564940680069120 # 7310035323255084101 #
      5999407464114826611 # 3472328296227549232 # 7148167208910204977 # 3472328284164940338 #
      3472328296227680304 # 5715705941608706359 # rest"
  by (simp add: schedule_numeral sigma0_def sigma1_def rotr_def)

lemma order_a_schedule_32:
  "schedule 16
     (8965314492811281210 # 5700742263801309541 # 3706301404024686871 # 15554064234674627774 #
      2506857902324731359 # 16915940567922634760 # 3780826306791985025 # 11925839679702763398 #
      13117697583813630771 # 15280021273854824343 # 17021698733940427563 # 9793596618515923793 #
      15876153493609381971 # 14020541893135521738 # 6535418461620543862 # 8618355376736532863 #
      rest) =
      17506306291604014438 # 7915712723827806817 # 8502247589302212206 # 2494634391190434312 #
      5812851989029289715 # 16493469044414652797 # 15856291408655091530 # 13548999969518670661 #
      1138648644778484991 # 10693513680609398189 # 813131981910207949 # 6146219928054106157 #
      14086049825292442942 # 13288481236016948170 # 4778940998516163141 # 12448428055153315850 #
      8965314492811281210 # 5700742263801309541 # 3706301404024686871 # 15554064234674627774 #
      2506857902324731359 # 16915940567922634760 # 3780826306791985025 # 11925839679702763398 #
      13117697583813630771 # 15280021273854824343 # 17021698733940427563 # 9793596618515923793 #
      15876153493609381971 # 14020541893135521738 # 6535418461620543862 # 8618355376736532863 #
      rest"
  by (simp add: schedule_numeral sigma0_def sigma1_def rotr_def)

lemma order_a_schedule_48:
  "schedule 16
     (17506306291604014438 # 7915712723827806817 # 8502247589302212206 # 2494634391190434312 #
      5812851989029289715 # 16493469044414652797 # 15856291408655091530 # 13548999969518670661 #
      1138648644778484991 # 10693513680609398189 # 813131981910207949 # 6146219928054106157 #
      14086049825292442942 # 13288481236016948170 # 4778940998516163141 # 12448428055153315850 #
      rest) =
      7635949404959620767 # 11175282882669653125 # 2049594804642910805 # 2931015219103080895 #
      11957470988976621016 # 713071278307768672 # 14857236047261640610 # 11626334833307162705 #
      7840983373798926309 # 3562678863576777780 # 5876126055982797731 # 15378708910774732966 #
      18308634133776831581 # 15562601228567572455 # 2027929740966072232 # 9432736590954485491 #
      17506306291604014438 # 7915712723827806817 # 8502247589302212206 # 2494634391190434312 #
      5812851989029289715 # 16493469044414652797 # 15856291408655091530 # 13548999969518670661 #
      1138648644778484991 # 10693513680609398189 # 813131981910207949 # 6146219928054106157 #
      14086049825292442942 # 13288481236016948170 # 4778940998516163141 # 12448428055153315850 #
      rest"
  by (simp add: schedule_numeral sigma0_def sigma1_def rotr_def)

lemma order_a_schedule_64:
  "schedule 16
     (7635949404959620767 # 11175282882669653125 # 2049594804642910805 # 2931015219103080895 #
      11957470988976621016 # 713071278307768672 # 14857236047261640610 # 11626334833307162705 #
      7840983373798926309 # 3562678863576777780 # 5876126055982797731 # 15378708910774732966 #
      18308634133776831581 # 15562601228567572455 # 2027929740966072232 # 9432736590954485491 #
      rest) =
      6521815877480585177 # 16703316252515519408 # 5974428337830726403 # 9949996269374359988 #
      1231544599935361615 # 7248028531404326030 # 14349747860561165271 # 2096359567676144568 #
      2719116601941813901 # 1196330463569704192 # 6384213420181699952 # 16912197804703333062 #
      4025339831900703128 # 4892562883128826890 # 11332567903195977849 # 3933293203943633975 #
      7635949404959620767 # 11175282882669653125 # 2049594804642910805 # 2931015219103080895 #
      11957470988976621016 # 713071278307768672 # 14857236047261640610 # 11626334833307162705 #
      7840983373798926309 # 3562678863576777780 # 5876126055982797731 # 15378708910774732966 #
      18308634133776831581 # 15562601228567572455 # 2027929740966072232 # 9432736590954485491 #
      rest"
  by (simp add: schedule_numeral sigma0_def sigma1_def rotr_def)

lemma order_a_rounds_0:
  "foldl sha512_round
     (7640891576956012808, 13503953896175478587, 4354685564936845355, 11912009170470909681,
      5840696475078001361, 11170449401992604703, 2270897969802886507, 6620516959819538809)
     ((4794697086780616226, 5715705941608706359) # (8158064640168781261, 3472328296227680304) #
      (13096744586834688815, 3472328284164940338) #
      (16840607885511220156, 7148167208910204977) # (4131703408338449720, 3472328296227549232) #
      (6480981068601479193, 5999407464114826611) # (10538285296894168987, 7310035323255084101) #
      (12329834152419229976, 6004564940680069120) # rest) =
   foldl sha512_round
     (4150293614548129206, 7586099287302242235, 8053477156629403702, 12735926332956434374,
      5145897480195202298, 830194403654721437, 6301388954812444904, 18119755743624961887) rest"
  by (rule foldl_chunk) (simp add: Sigma0_def Sigma1_def Ch_def Maj_def rotr_def)

lemma order_a_rounds_8:
  "foldl sha512_round
     (4150293614548129206, 7586099287302242235, 8053477156629403702, 12735926332956434374,
      5145897480195202298, 830194403654721437, 6301388954812444904, 18119755743624961887)
     ((15566598209576043074, 0) # (1334009975649890238, 0) # (2608012711638119052, 0) #
      (6128411473006802146, 0) # (8268148722764581231, 0) # (9286055187155687089, 0) #
      (11230858885718282805, 0) # (13951009754708518548, 464) # rest) =
   foldl sha512_round
     (8489016168907429228, 10038961423481942710, 9817570251152909972, 7096542751993198699,
      3963166342153519405, 15538067370960137308, 8836924570742626569, 18122205392011962143) rest"
  by (rule foldl_chunk) (simp add: Sigma0_def Sigma1_def Ch_def Maj_def rotr_def)

lemma order_a_rounds_16:
  "foldl sha512_round
     (8489016168907429228, 10038961423481942710, 9817570251152909972, 7096542751993198699,
      3963166342153519405, 15538067370960137308, 8836924570742626569, 18122205392011962143)
     ((16472876342353939154, 8618355376736532863) #
      (17275323862435702243, 6535418461620543862) #
      (1135362057144423861, 14020541893135521738) #
      (2597628984639134821, 15876153493609381971) # (3308224258029322869, 9793596618515923793) #
      (5365058923640841347, 17021698733940427563) #
      (6679025012923562964, 15280021273854824343) #
      (8573033837759648693, 13117697583813630771) # rest) =
   foldl sha512_round
     (14981737012787173603, 3508365635912000041, 10243637970278593252, 4644223088498991300,
      15084074238027285184, 11741324457420959656, 1183385846699297381, 14251436770938942376) rest"
  by (rule foldl_chunk) (simp add: Sigma0_def Sigma1_def Ch_def Maj_def rotr_def)

lemma order_a_rounds_24:
  "foldl sha512_round
     (14981737012787173603, 3508365635912000041, 10243637970278593252, 4644223088498991300,
      15084074238027285184, 11741324457420959656, 1183385846699297381, 14251436770938942376)
     ((10970295158949994411, 11925839679702763398) #
      (12119686244451234320, 3780826306791985025) #
      (12683024718118986047, 16915940567922634760) #
      (13788192230050041572, 2506857902324731359) #
      (14330467153632333762, 15554064234674627774) #
      (15395433587784984357, 3706301404024686871) # (489312712824947311, 5700742263801309541) #
      (1452737877330783856, 8965314492811281210) # rest) =
   foldl sha512_round
     (6322969532206792253, 12838373816072614681, 17200691918276498793, 6031151534889451722,
      914703986010039005, 7707795716738143235, 17084768285004368046, 3269661027177192036) rest"
  by (rule foldl_chunk) (simp add: Sigma0_def Sigma1_def Ch_def Maj_def rotr_def)

lemma order_a_rounds_32:
  "foldl sha512_round
     (6322969532206792253, 12838373816072614681, 17200691918276498793, 6031151534889451722,
      914703986010039005, 7707795716738143235, 17084768285004368046, 3269661027177192036)
     ((2861767655752347644, 12448428055153315850) # (3322285676063803686, 4778940998516163141) #
      (5560940570517711597, 13288481236016948170) #
      (5996557281743188959, 14086049825292442942) # (7280758554555802590, 6146219928054106157) #
      (8532644243296465576, 813131981910207949) # (9350256976987008742, 10693513680609398189) #
      (10552545826968843579, 1138648644778484991) # rest) =
   foldl sha512_round
     (5863169234672283963, 1138886749132305469, 2185969488222343231, 9225863464767826012,
      17224783723540768791, 18256891231717745173, 14685148507645963267, 3907773471659753103) rest"
  by (rule foldl_chunk) (simp add: Sigma0_def Sigma1_def Ch_def Maj_def rotr_def)

lemma order_a_rounds_40:
  "foldl sha512_round
     (5863169234672283963, 1138886749132305469, 2185969488222343231, 9225863464767826012,
      17224783723540768791, 18256891231717745173, 14685148507645963267, 3907773471659753103)
     ((11727347734174303076, 13548999969518670661) #
      (12113106623233404929, 15856291408655091530) #
      (14000437183269869457, 16493469044414652797) #
      (14369950271660146224, 5812851989029289715) #
      (15101387698204529176, 2494634391190434312) #
      (15463397548674623760, 8502247589302212206) #
      (17586052441742319658, 7915712723827806817) #
      (1182934255886127544, 17506306291604014438) # rest) =
   foldl sha512_round
     (5581824659544050160, 3795030820400189880, 12914004246514835580, 16518811646105390134,
      16977784124638032588, 6792424876577899249, 8479783828840386898, 16000640469382774481) rest"
  by (rule foldl_chunk) (simp add: Sigma0_def Sigma1_def Ch_def Maj_def rotr_def)

lemma order_a_rounds_48:
  "foldl sha512_round
     (5581824659544050160, 3795030820400189880, 12914004246514835580, 16518811646105390134,
      16977784124638032588, 6792424876577899249, 8479783828840386898, 16000640469382774481)
     ((1847814050463011016, 9432736590954485491) # (2177327727835720531, 2027929740966072232) #
      (2830643537854262169, 15562601228567572455) #
      (3796741975233480872, 18308634133776831581) #
      (4115178125766777443, 15378708910774732966) # (5681478168544905931, 5876126055982797731) #
      (6601373596472566643, 3562678863576777780) # (7507060721942968483, 7840983373798926309) #
      rest) =
   foldl sha512_round
     (11260567459368701614, 10812714193825930037, 5631518530691589896, 10264961053671646917,
      15012700894445678380, 1707719504069245518, 5119907610544061560, 14394751176482421616) rest"
  by (rule foldl_chunk) (simp add: Sigma0_def Sigma1_def Ch_def Maj_def rotr_def)

lemma order_a_rounds_56:
  "foldl sha512_round
     (11260567459368701614, 10812714193825930037, 5631518530691589896, 10264961053671646917,
      15012700894445678380, 1707719504069245518, 5119907610544061560, 14394751176482421616)
     ((8399075790359081724, 11626334833307162705) #
      (8693463985226723168, 14857236047261640610) # (9568029438360202098, 713071278307768672) #
      (10144078919501101548, 11957470988976621016) #
      (10430055236837252648, 2931015219103080895) #
      (11840083180663258601, 2049594804642910805) #
      (13761210420658862357, 11175282882669653125) #
      (14299343276471374635, 7635949404959620767) # rest) =
   foldl sha512_round
     (15574516696984687901, 12330878056049179461, 13204613445679889478, 3252875404140889852,
      1991112242151143697, 6504393280787028336, 5609177960895006789, 5209561102953589340) rest"
  by (rule foldl_chunk) (simp add: Sigma0_def Sigma1_def Ch_def Maj_def rotr_def)

lemma order_a_rounds_64:
  "foldl sha512_round
     (15574516696984687901, 12330878056049179461, 13204613445679889478, 3252875404140889852,
      1991112242151143697, 6504393280787028336, 5609177960895006789, 5209561102953589340)
     ((14566680578165727644, 3933293203943633975) #
      (15097957966210449927, 11332567903195977849) #
      (16922976911328602910, 4892562883128826890) #
      (17689382322260857208, 4025339831900703128) # (500013540394364858, 16912197804703333062) #
      (748580250866718886, 6384213420181699952) # (1242879168328830382, 1196330463569704192) #
      (1977374033974150939, 2719116601941813901) # rest) =
   foldl sha512_round
     (12496141597605927800, 6868019915556400469, 17364376431223957335, 13634725622680368701,
      7015565345680073513, 13275041589307012340, 14210263505307292301, 218663087733511505) rest"
  by (rule foldl_chunk) (simp add: Sigma0_def Sigma1_def Ch_def Maj_def rotr_def)

lemma order_a_rounds_72:
  "foldl sha512_round
     (12496141597605927800, 6868019915556400469, 17364376431223957335, 13634725622680368701,
      7015565345680073513, 13275041589307012340, 14210263505307292301, 218663087733511505)
     ((2944078676154940804, 2096359567676144568) # (3659926193048069267, 14349747860561165271) #
      (4368137639120453308, 7248028531404326030) # (4836135668995329356, 1231544599935361615) #
      (5532061633213252278, 9949996269374359988) # (6448918945643986474, 5974428337830726403) #
      (6902733635092675308, 16703316252515519408) # (7801388544844847127, 6521815877480585177) #
      rest) =
   foldl sha512_round
     (18119990211454471693, 4129413984105525561, 7428320250540616188, 15463771183329839615,
      14605171399104451464, 6954584591657731403, 7162801171993947646, 8794482950486021435) rest"
  by (rule foldl_chunk) (simp add: Sigma0_def Sigma1_def Ch_def Maj_def rotr_def)

lemma order_a_padded:
  "sha512_pad (encode ''ORDER-1700000000000-a1b2c3d4200100000.00SB-Mid-server-TEST'') = [
      79, 82, 68, 69, 82, 45, 49, 55, 48, 48, 48, 48, 48, 48, 48, 48, 48, 48, 48, 45, 97, 49,
      98, 50, 99, 51, 100, 52, 50, 48, 48, 49, 48, 48, 48, 48, 48, 46, 48, 48, 83, 66, 45, 77,
      105, 100, 45, 115, 101, 114, 118, 101, 114, 45, 84, 69, 83, 84, 128, 0, 0, 0, 0, 0, 0, 0,
      0, 0, 0, 0, 0, 0, 0, 0, 0, 0, 0, 0, 0, 0, 0, 0, 0, 0, 0, 0, 0, 0, 0, 0, 0, 0, 0, 0, 0, 0,
      0, 0, 0, 0, 0, 0, 0, 0, 0, 0, 0, 0, 0, 0, 0, 0, 0, 0, 0, 0, 0, 0, 0, 0, 0, 0, 0, 0, 0, 0,
      1, 208]"
  by (simp add: encode_def utf8_char_def sha512_pad_def be_bytes_numeral replicate_numeral)

lemma order_a_words:
  "words_of 16 [
      79, 82, 68, 69, 82, 45, 49, 55, 48, 48, 48, 48, 48, 48, 48, 48, 48, 48, 48, 45, 97, 49,
      98, 50, 99, 51, 100, 52, 50, 48, 48, 49, 48, 48, 48, 48, 48, 46, 48, 48, 83, 66, 45, 77,
      105, 100, 45, 115, 101, 114, 118, 101, 114, 45, 84, 69, 83, 84, 128, 0, 0, 0, 0, 0, 0, 0,
      0, 0, 0, 0, 0, 0, 0, 0, 0, 0, 0, 0, 0, 0, 0, 0, 0, 0, 0, 0, 0, 0, 0, 0, 0, 0, 0, 0, 0, 0,
      0, 0, 0, 0, 0, 0, 0, 0, 0, 0, 0, 0, 0, 0, 0, 0, 0, 0, 0, 0, 0, 0, 0, 0, 0, 0, 0, 0, 0, 0,
      1, 208] = [
      5715705941608706359, 3472328296227680304, 3472328284164940338, 7148167208910204977,
      3472328296227549232, 5999407464114826611, 7310035323255084101, 6004564940680069120, 0, 0,
      0, 0, 0, 0, 0, 464]"
  by (simp add: words_of_numeral)

lemma order_a_schedule:
  "schedule 64 [
      464, 0, 0, 0, 0, 0, 0, 0, 6004564940680069120, 7310035323255084101, 5999407464114826611,
      3472328296227549232, 7148167208910204977, 3472328284164940338, 3472328296227680304,
      5715705941608706359] = [
      6521815877480585177, 16703316252515519408, 5974428337830726403, 9949996269374359988,
      1231544599935361615, 7248028531404326030, 14349747860561165271, 2096359567676144568,
      2719116601941813901, 1196330463569704192, 6384213420181699952, 16912197804703333062,
      4025339831900703128, 4892562883128826890, 11332567903195977849, 3933293203943633975,
      7635949404959620767, 11175282882669653125, 2049594804642910805, 2931015219103080895,
      11957470988976621016, 713071278307768672, 14857236047261640610, 11626334833307162705,
      7840983373798926309, 3562678863576777780, 5876126055982797731, 15378708910774732966,
      18308634133776831581, 15562601228567572455, 2027929740966072232, 9432736590954485491,
      17506306291604014438, 7915712723827806817, 8502247589302212206, 2494634391190434312,
      5812851989029289715, 16493469044414652797, 15856291408655091530, 13548999969518670661,
      1138648644778484991, 10693513680609398189, 813131981910207949, 6146219928054106157,
      14086049825292442942, 13288481236016948170, 4778940998516163141, 12448428055153315850,
      8965314492811281210, 5700742263801309541, 3706301404024686871, 15554064234674627774,
      2506857902324731359, 16915940567922634760, 3780826306791985025, 11925839679702763398,
      13117697583813630771, 15280021273854824343, 17021698733940427563, 9793596618515923793,
      15876153493609381971, 14020541893135521738, 6535418461620543862, 8618355376736532863, 464,
      0, 0, 0, 0, 0, 0, 0, 6004564940680069120, 7310035323255084101, 5999407464114826611,
      3472328296227549232, 7148167208910204977, 3472328284164940338, 3472328296227680304,
      5715705941608706359]"
  by (simp only: schedule_64
      order_a_schedule_16 order_a_schedule_32 order_a_schedule_48 order_a_schedule_64)

lemma order_a_rounds:
  "foldl sha512_round
     (7640891576956012808, 13503953896175478587, 4354685564936845355, 11912009170470909681,
      5840696475078001361, 11170449401992604703, 2270897969802886507, 6620516959819538809)
     (zip sha512_K [
      5715705941608706359, 3472328296227680304, 3472328284164940338, 7148167208910204977,
      3472328296227549232, 5999407464114826611, 7310035323255084101, 6004564940680069120, 0, 0,
      0, 0, 0, 0, 0, 464, 8618355376736532863, 6535418461620543862, 14020541893135521738,
      15876153493609381971, 9793596618515923793, 17021698733940427563, 15280021273854824343,
      13117697583813630771, 11925839679702763398, 3780826306791985025, 16915940567922634760,
      2506857902324731359, 15554064234674627774, 3706301404024686871, 5700742263801309541,
      8965314492811281210, 12448428055153315850, 4778940998516163141, 13288481236016948170,
      14086049825292442942, 6146219928054106157, 813131981910207949, 10693513680609398189,
      1138648644778484991, 13548999969518670661, 15856291408655091530, 16493469044414652797,
      5812851989029289715, 2494634391190434312, 8502247589302212206, 7915712723827806817,
      17506306291604014438, 9432736590954485491, 2027929740966072232, 15562601228567572455,
      18308634133776831581, 15378708910774732966, 5876126055982797731, 3562678863576777780,
      7840983373798926309, 11626334833307162705, 14857236047261640610, 713071278307768672,
      11957470988976621016, 2931015219103080895, 2049594804642910805, 11175282882669653125,
      7635949404959620767, 3933293203943633975, 11332567903195977849, 4892562883128826890,
      4025339831900703128, 16912197804703333062, 6384213420181699952, 1196330463569704192,
      2719116601941813901, 2096359567676144568, 14349747860561165271, 7248028531404326030,
      1231544599935361615, 9949996269374359988, 5974428337830726403, 16703316252515519408,
      6521815877480585177]) =
     (18119990211454471693, 4129413984105525561, 7428320250540616188, 15463771183329839615,
      14605171399104451464, 6954584591657731403, 7162801171993947646, 8794482950486021435)"
  by (simp only: sha512_K_def zip_Cons_Cons zip_Nil foldl_Nil
      order_a_rounds_0 order_a_rounds_8 order_a_rounds_16 order_a_rounds_24 order_a_rounds_32
      order_a_rounds_40 order_a_rounds_48 order_a_rounds_56 order_a_rounds_64 order_a_rounds_72)

lemma order_a_digest:
  "sha512 (encode ''ORDER-1700000000000-a1b2c3d4200100000.00SB-Mid-server-TEST'') = [
      101, 129, 9, 127, 227, 9, 87, 21, 244, 182, 78, 169, 89, 238, 152, 116, 163, 133, 165, 92,
      49, 229, 98, 39, 123, 234, 79, 48, 77, 105, 64, 240, 27, 190, 80, 129, 53, 55, 86, 89,
      251, 137, 14, 98, 253, 104, 113, 106, 130, 235, 59, 99, 56, 181, 43, 105, 213, 237, 20,
      191, 10, 112, 246, 180]"
  by (simp add: sha512_def order_a_padded sha512_H0_def order_a_words order_a_schedule
      order_a_rounds be_bytes_numeral)

lemma order_a_signature:
  "calculatedSignature
     (Some ''ORDER-1700000000000-a1b2c3d4'')
     (Some ''200'')
     (Some ''100000.00'')
     (Some ''SB-Mid-server-TEST'') =
     ''6581097fe3095715f4b64ea959ee9874a385a55c31e562277bea4f304d6940f0'' @
     ''1bbe508135375659fb890e62fd68716a82eb3b6338b52b69d5ed14bf0a70f6b4''"
  by (simp add: calculatedSignature_def template_def order_a_digest padStart_def toString16.simps
      digit16_def)

section \<open>The paths through the webhook handler\<close>

lemma handle_misconfigured:
  "falsy (MIDTRANS_SERVER_KEY env) \<Longrightarrow>
   handleNotification env (Inr b) d =
     (json_response 500 (ErrorBody ''Server configuration error''), d,
      [ConsoleLog ''Received Midtrans notification:'',
       ConsoleError ''MIDTRANS_SERVER_KEY not configured'' None])"
  by (simp add: handleNotification_def webhook_try_def)

lemma handle_missing_signature:
  "\<not> falsy (MIDTRANS_SERVER_KEY env) \<Longrightarrow> falsy (signature_key n) \<Longrightarrow>
   handleNotification env (Inr (BodyFields n)) d =
     (json_response 401 (ErrorBody ''Invalid request''), d,
      [ConsoleLog ''Received Midtrans notification:'',
       ConsoleError ''Missing signature_key in notification'' None])"
  by (simp add: handleNotification_def webhook_try_def)

lemma handle_invalid_signature:
  "\<not> falsy (MIDTRANS_SERVER_KEY env) \<Longrightarrow> \<not> falsy (signature_key n) \<Longrightarrow>
   \<not> verifyMidtransSignature (order_id n) (status_code n) (gross_amount n)
        (MIDTRANS_SERVER_KEY env) (signature_key n) \<Longrightarrow>
   handleNotification env (Inr (BodyFields n)) d =
     (json_response 401 (ErrorBody ''Invalid signature''), d,
      [ConsoleLog ''Received Midtrans notification:'',
       ConsoleError ''Invalid Midtrans signature'' None])"
  by (simp add: handleNotification_def webhook_try_def)

lemma try_authenticated:
  assumes "MIDTRANS_SERVER_KEY env = Some k" "k \<noteq> []"
    and "signature_key n =
           Some (calculatedSignature (order_id n) (status_code n) (gross_amount n) (Some k))"
  shows "webhook_try env (Inr (BodyFields n)) d =
           (case apply_transition env n d of
              (r, d', logs) \<Rightarrow> (r, d', ConsoleLog ''Received Midtrans notification:'' # logs))"
  using assms
  by (simp add: webhook_try_def verifyMidtransSignature_def calculatedSignature_not_empty)

lemma update_none:
  "filter (\<lambda>p. midtrans_order_id p = oid) (payments d) = [] \<Longrightarrow>
   \<exists>e. update_payment_status fault oid st d = (Inl e, d)"
  by (simp add: update_payment_status_def split: option.splits)

lemma update_one:
  "filter (\<lambda>p. midtrans_order_id p = oid) (payments d) = [p] \<Longrightarrow>
   update_payment_status None oid st d =
     (Inr (p\<lparr>p_status := st\<rparr>),
      d\<lparr>payments :=
          map (\<lambda>q. if midtrans_order_id q = oid then q\<lparr>p_status := st\<rparr> else q) (payments d)\<rparr>)"
  by (simp add: update_payment_status_def)

lemma filter_updated:
  "filter (\<lambda>q. midtrans_order_id q = oid)
     (map (\<lambda>q. if midtrans_order_id q = oid then q\<lparr>p_status := st\<rparr> else q) ps) =
   map (\<lambda>q. q\<lparr>p_status := st\<rparr>) (filter (\<lambda>q. midtrans_order_id q = oid) ps)"
  by (induction ps) simp_all

lemma update_same_status:
  assumes "filter (\<lambda>q. midtrans_order_id q = oid) ps = [p]" "p_status p = st"
  shows "map (\<lambda>q. if midtrans_order_id q = oid then q\<lparr>p_status := st\<rparr> else q) ps = ps"
proof (rule map_idI)
  fix q assume "q \<in> set ps"
  show "(if midtrans_order_id q = oid then q\<lparr>p_status := st\<rparr> else q) = q"
  proof (cases "midtrans_order_id q = oid")
    case True
    with \<open>q \<in> set ps\<close> have "q \<in> set (filter (\<lambda>q. midtrans_order_id q = oid) ps)" by simp
    with assms have "q = p" by simp
    with assms True show ?thesis by simp
  next
    case False
    then show ?thesis by simp
  qed
qed

lemma payments_insert_enrollment: "payments (snd (insert_enrollment fault row d)) = payments d"
  by (simp add: insert_enrollment_def split: option.splits)

lemma duplicate_key_error_includes: "includes_str duplicate_key_error ''duplicate''"
  by (simp add: duplicate_key_error_def)

lemma not_list_ex_filter: "\<not> list_ex P xs \<Longrightarrow> filter P xs = []"
  by (induction xs) auto

text \<open>
  An authenticated notification whose order id has exactly one payment, on a store that
  takes the update: the answer, the store and the console.
\<close>

lemma handle_accepted:
  assumes "MIDTRANS_SERVER_KEY env = Some k" "k \<noteq> []"
    and "signature_key n =
           Some (calculatedSignature (order_id n) (status_code n) (gross_amount n) (Some k))"
    and "update_fault env = None"
    and "filter (\<lambda>q. midtrans_order_id q = template (order_id n)) (payments d) = [p]"
  shows "handleNotification env (Inr (BodyFields n)) d =
    (let st = paymentStatus (transaction_status n) (fraud_status n);
         d' = d\<lparr>payments :=
                  map (\<lambda>q. if midtrans_order_id q = template (order_id n)
                            then q\<lparr>p_status := st\<rparr> else q) (payments d)\<rparr>;
         ins = insert_enrollment (insert_fault env)
                 \<lparr>e_user_id = p_user_id p, e_course_id = p_course_id p, progress = 0\<rparr> d'
     in (json_response 200 SuccessBody,
         (if st = Settlement then snd ins else d'),
         ConsoleLog ''Received Midtrans notification:'' #
         (if st = Settlement then
            (case fst ins of
               None \<Rightarrow> []
             | Some m \<Rightarrow>
                 if includes_str m ''duplicate'' then []
                 else [ConsoleError ''Error creating enrollment:'' (Some m)])
          else [])))"
  using assms(4)
  by (simp add: handleNotification_def try_authenticated [OF assms(1-3)] apply_transition_def
      update_one [OF assms(5)] Let_def split: prod.splits option.splits)

lemma apply_transition_gross_amount:
  "apply_transition env (n\<lparr>gross_amount := g, signature_key := s\<rparr>) d = apply_transition env n d"
  by (simp add: apply_transition_def)

lemma webhook_responses:
  "response_of (handleNotification env (Inr (BodyFields n)) d) \<in>
     {json_response 500 (ErrorBody ''Server configuration error''),
      json_response 401 (ErrorBody ''Invalid request''),
      json_response 401 (ErrorBody ''Invalid signature''),
      json_response 200 SuccessBody,
      json_response 400 (ErrorBody ''Failed to update payment'')}"
proof -
  consider "falsy (MIDTRANS_SERVER_KEY env)"
    | "\<not> falsy (MIDTRANS_SERVER_KEY env)" "falsy (signature_key n)"
    | "\<not> falsy (MIDTRANS_SERVER_KEY env)" "\<not> falsy (signature_key n)"
      "\<not> verifyMidtransSignature (order_id n) (status_code n) (gross_amount n)
          (MIDTRANS_SERVER_KEY env) (signature_key n)"
    | "\<not> falsy (MIDTRANS_SERVER_KEY env)" "\<not> falsy (signature_key n)"
      "verifyMidtransSignature (order_id n) (status_code n) (gross_amount n)
          (MIDTRANS_SERVER_KEY env) (signature_key n)"
    by blast
  then show ?thesis
  proof cases
    case 1
    then show ?thesis by (simp add: handle_misconfigured response_of_def)
  next
    case 2
    then show ?thesis by (simp add: handle_missing_signature response_of_def)
  next
    case 3
    then show ?thesis by (simp add: handle_invalid_signature response_of_def)
  next
    case 4
    then show ?thesis
      by (auto simp: handleNotification_def webhook_try_def response_of_def apply_transition_def
          Let_def split: prod.splits sum.splits if_splits)
  qed
qed

lemma handle_null_body:
  "\<not> falsy (MIDTRANS_SERVER_KEY env) \<Longrightarrow>
   handleNotification env (Inr BodyNull) d =
     (json_response 400 (ErrorBody destructure_null_error), d,
      [ConsoleLog ''Received Midtrans notification:'',
       ConsoleError ''Webhook error:'' (Some destructure_null_error)])"
  by (simp add: handleNotification_def webhook_try_def)

lemma null_body_keeps_store: "store_of (handleNotification env (Inr BodyNull) d) = d"
  by (cases "falsy (MIDTRANS_SERVER_KEY env)")
     (simp_all add: handle_misconfigured handle_null_body store_of_def)

text \<open>Whatever is wrong with the secret or the signature, the store stays as it was.\<close>

lemma unauthenticated_keeps_store:
  assumes "falsy (MIDTRANS_SERVER_KEY env) \<or> falsy (signature_key n) \<or>
           \<not> verifyMidtransSignature (order_id n) (status_code n) (gross_amount n)
                (MIDTRANS_SERVER_KEY env) (signature_key n)"
  shows "store_of (handleNotification env (Inr (BodyFields n)) d) = d"
  using assms
  by (auto simp: handleNotification_def webhook_try_def store_of_def Let_def)

section \<open>The paths through the payment handler\<close>

lemma getUserMessage_fixed: "getUserMessage e = Some t \<Longrightarrow> t \<in> set client_messages"
  by (auto simp: getUserMessage_def client_messages_def split: option.splits if_splits
      dest: map_of_SomeD intro: rev_image_eqI)





text \<open>
  The specification's end-to-end scenario on the worked example: the request creates the
  pending payment of \<open>db_a\<close>, and the settlement notification for it settles the payment and
  enrolls the user with progress 0.
\<close>

lemma scenario_create:
  "create_payment_handler pay_env_a (Some ''Bearer token-a'')
     (Body ''123e4567-e89b-12d3-a456-426614174000'' 100000) (db_a\<lparr>payments := []\<rparr>) =
   (json_response 200
      (PaymentBody (Some ''https://api.sandbox.midtrans.com/v2/gopay/tx-0001/qr-code'')
         ''ORDER-1700000000000-a1b2c3d4'' (Some ''tx-0001'')),
    db_a\<lparr>payments :=
           [intent_a\<lparr>midtrans_transaction_id := Some ''tx-0001'',
                     p_payment_type := Some ''gopay''\<rparr>]\<rparr>,
    [])"
  by (simp add: create_payment_handler_def create_payment_try_def charge_def select_course_def
      insert_payment_def update_payment_transaction_def payment_url_def js_or_def
      paymentRequestSchema_def is_uuid_def is_hex_digit_def pay_env_a_def fixtures
      decimal.simps digit16_def json_response_def Let_def)

lemma scenario_settle:
  "handleNotification env_a (Inr (BodyFields settlement_a)) db_a =
   (json_response 200 SuccessBody,
    db_a\<lparr>payments := [intent_a\<lparr>p_status := Settlement\<rparr>], enrollments := [enrolled_a]\<rparr>,
    [ConsoleLog ''Received Midtrans notification:''])"
  by (simp add: handleNotification_def webhook_try_def apply_transition_def
      update_payment_status_def insert_enrollment_def paymentStatus_def
      verifyMidtransSignature_def fixtures order_a_signature)

lemma scenario_expire:
  "handleNotification env_a (Inr (BodyFields (settlement_a\<lparr>transaction_status := Some ''expire''\<rparr>))) db_a =
   (json_response 200 SuccessBody,
    db_a\<lparr>payments := [intent_a\<lparr>p_status := Failed\<rparr>]\<rparr>,
    [ConsoleLog ''Received Midtrans notification:''])"
  by (simp add: handleNotification_def webhook_try_def apply_transition_def
      update_payment_status_def paymentStatus_def verifyMidtransSignature_def fixtures
      order_a_signature)

text \<open>The comparison is by characters: the same digest in capitals is not the signature.\<close>

lemma scenario_case_sensitive:
  "verifyMidtransSignature (order_id settlement_a) (status_code settlement_a)
     (gross_amount settlement_a) (Some key_a) (Some signature_a) \<and>
   \<not> verifyMidtransSignature (order_id settlement_a) (status_code settlement_a)
     (gross_amount settlement_a) (Some key_a)
     (Some (''6581097FE3095715F4B64EA959EE9874A385A55C31E562277BEA4F304D6940F0'' @
            ''1BBE508135375659FB890E62FD68716A82EB3B6338B52B69D5ED14BF0A70F6B4''))"
  by (simp add: verifyMidtransSignature_def fixtures order_a_signature)

section \<open>The claims\<close>

subsection \<open>C1: the stored status follows the notification\<close>

text \<open>
  C1, as the code has it. An authenticated notification for an order id that has exactly one
  payment, on a store that takes the update, leaves that payment with the status mapped from
  the notification (capture with fraud status accept, or settlement: settlement; cancel, deny
  or expire: failed; anything else: pending), whatever status was stored before. When the
  mapped status is the stored one, the payments table is unchanged: re-applying the same
  status is a no-op.
\<close>

theorem status_follows_notification:
  assumes "MIDTRANS_SERVER_KEY env = Some k" "k \<noteq> []"
    and "signature_key n =
           Some (calculatedSignature (order_id n) (status_code n) (gross_amount n) (Some k))"
    and "update_fault env = None"
    and "filter (\<lambda>q. midtrans_order_id q = template (order_id n)) (payments d) = [p]"
  shows "map p_status
           (filter (\<lambda>q. midtrans_order_id q = template (order_id n))
              (payments (store_of (handleNotification env (Inr (BodyFields n)) d)))) =
         [paymentStatus (transaction_status n) (fraud_status n)] \<and>
         (p_status p = paymentStatus (transaction_status n) (fraud_status n) \<longrightarrow>
          payments (store_of (handleNotification env (Inr (BodyFields n)) d)) = payments d)"
  by (simp add: handle_accepted [OF assms] store_of_def Let_def payments_insert_enrollment
      filter_updated assms(5) update_same_status [OF assms(5)])

text \<open>
  C1, witness: the settlement notification of the worked example, delivered when the payment
  is already settled, leaves the payments table as it was.
\<close>

theorem status_follows_notification_witness:
  "map p_status
     (filter (\<lambda>q. midtrans_order_id q = ''ORDER-1700000000000-a1b2c3d4'')
        (payments (store_of (handleNotification env_a (Inr (BodyFields settlement_a))
           (db_a\<lparr>payments := [intent_a\<lparr>p_status := Settlement\<rparr>]\<rparr>))))) = [Settlement] \<and>
   payments (store_of (handleNotification env_a (Inr (BodyFields settlement_a))
      (db_a\<lparr>payments := [intent_a\<lparr>p_status := Settlement\<rparr>]\<rparr>))) =
   [intent_a\<lparr>p_status := Settlement\<rparr>]"
  using status_follows_notification [where env = env_a and n = settlement_a and k = key_a
      and d = "db_a\<lparr>payments := [intent_a\<lparr>p_status := Settlement\<rparr>]\<rparr>"
      and p = "intent_a\<lparr>p_status := Settlement\<rparr>"]
  by (simp add: fixtures order_a_signature paymentStatus_def)

text \<open>
  C1, counterexample to the claim as stated: the payment of the worked example is settled,
  and a notification with the same valid signature and \<^verbatim>\<open>transaction_status = expire\<close> is
  accepted and moves it to failed.
\<close>

theorem terminal_status_overwritten:
  "map p_status (payments (db_a\<lparr>payments := [intent_a\<lparr>p_status := Settlement\<rparr>]\<rparr>)) =
     [Settlement] \<and>
   response_of (handleNotification env_a
      (Inr (BodyFields (settlement_a\<lparr>transaction_status := Some ''expire''\<rparr>)))
      (db_a\<lparr>payments := [intent_a\<lparr>p_status := Settlement\<rparr>]\<rparr>)) =
     json_response 200 SuccessBody \<and>
   map p_status (payments (store_of (handleNotification env_a
      (Inr (BodyFields (settlement_a\<lparr>transaction_status := Some ''expire''\<rparr>)))
      (db_a\<lparr>payments := [intent_a\<lparr>p_status := Settlement\<rparr>]\<rparr>)))) = [Failed]"
  by (simp add: handleNotification_def webhook_try_def apply_transition_def
      update_payment_status_def paymentStatus_def verifyMidtransSignature_def
      fixtures order_a_signature response_of_def store_of_def)

subsection \<open>C2: an invalid signature is rejected before any mutation\<close>

text \<open>
  With a server key configured, a body other than \<^verbatim>\<open>null\<close> whose \<^verbatim>\<open>signature_key\<close> is not the
  hexadecimal SHA-512 digest of order id, status code, gross amount and server key is
  answered with status 401, and the store is unchanged, whatever the transaction status.
\<close>

lemma invalid_signature_401:
  assumes "MIDTRANS_SERVER_KEY env = Some k" "k \<noteq> []"
    and "signature_key n \<noteq>
           Some (calculatedSignature (order_id n) (status_code n) (gross_amount n) (Some k))"
  shows "http_status (response_of (handleNotification env (Inr (BodyFields n)) d)) = 401 \<and>
         store_of (handleNotification env (Inr (BodyFields n)) d) = d"
proof (cases "falsy (signature_key n)")
  case True
  with assms show ?thesis
    by (simp add: handle_missing_signature response_of_def store_of_def json_response_def)
next
  case False
  from assms have "\<not> verifyMidtransSignature (order_id n) (status_code n) (gross_amount n)
        (MIDTRANS_SERVER_KEY env) (signature_key n)"
    by (auto simp: verifyMidtransSignature_def)
  with False assms(1,2) show ?thesis
    by (simp add: handle_invalid_signature response_of_def store_of_def json_response_def)
qed

lemma invalid_signature_401_example:
  "http_status (response_of (handleNotification env_a
      (Inr (BodyFields (settlement_a\<lparr>signature_key := Some ''0000''\<rparr>))) db_a)) = 401 \<and>
   store_of (handleNotification env_a
      (Inr (BodyFields (settlement_a\<lparr>signature_key := Some ''0000''\<rparr>))) db_a) = db_a"
  using invalid_signature_401 [where env = env_a and k = key_a
      and n = "settlement_a\<lparr>signature_key := Some ''0000''\<rparr>" and d = db_a]
  by (simp add: fixtures order_a_signature)

text \<open>
  C2, where the code departs from it. The claim: every notification whose \<^verbatim>\<open>signature_key\<close>
  is not the digest is answered with 401 and changes nothing. The body \<^verbatim>\<open>null\<close> carries no
  signature at all; with the server key of the worked example configured it passes the key
  check, the destructuring on line 51 throws, and the \<^verbatim>\<open>catch\<close> block answers 400 with the
  runtime's message, not 401. The store is unchanged here too.
\<close>

theorem null_body_answered_400:
  "response_of (handleNotification env_a (Inr BodyNull) db_a) =
     json_response 400
       (ErrorBody ''Cannot destructure property 'order_id' of 'notification' as it is null.'') \<and>
   http_status (response_of (handleNotification env_a (Inr BodyNull) db_a)) \<noteq> 401 \<and>
   store_of (handleNotification env_a (Inr BodyNull) db_a) = db_a"
  by (simp add: handleNotification_def webhook_try_def response_of_def store_of_def
      json_response_def destructure_null_error_def env_a_def key_a_def)

subsection \<open>C3: a settlement delivered twice enrolls once\<close>

text \<open>
  C3. A validly signed notification with \<^verbatim>\<open>transaction_status = settlement\<close>, or with
  \<^verbatim>\<open>capture\<close> and \<^verbatim>\<open>fraud_status = accept\<close>, is delivered twice for an order id with exactly
  one payment, of a user not yet enrolled in the course, on a store that does not fail. Both
  deliveries are answered with success, the store then holds exactly one enrollment for the
  payment's user and course, with progress 0, and the payment is settled after the first
  delivery and after the second.
\<close>

theorem settlement_twice:
  fixes env n d p
  defines "R1 \<equiv> handleNotification env (Inr (BodyFields n)) d"
  defines "R2 \<equiv> handleNotification env (Inr (BodyFields n)) (store_of R1)"
  assumes "MIDTRANS_SERVER_KEY env = Some k" "k \<noteq> []"
    and "signature_key n =
           Some (calculatedSignature (order_id n) (status_code n) (gross_amount n) (Some k))"
    and "transaction_status n = Some ''settlement'' \<or>
         transaction_status n = Some ''capture'' \<and> fraud_status n = Some ''accept''"
    and "update_fault env = None" "insert_fault env = None"
    and "filter (\<lambda>q. midtrans_order_id q = template (order_id n)) (payments d) = [p]"
    and "\<not> list_ex (\<lambda>e. e_user_id e = p_user_id p \<and> e_course_id e = p_course_id p)
             (enrollments d)"
  shows "response_of R1 = json_response 200 SuccessBody \<and>
         response_of R2 = json_response 200 SuccessBody \<and>
         filter (\<lambda>e. e_user_id e = p_user_id p \<and> e_course_id e = p_course_id p)
           (enrollments (store_of R2)) =
           [\<lparr>e_user_id = p_user_id p, e_course_id = p_course_id p, progress = 0\<rparr>] \<and>
         map p_status (filter (\<lambda>q. midtrans_order_id q = template (order_id n))
           (payments (store_of R1))) = [Settlement] \<and>
         map p_status (filter (\<lambda>q. midtrans_order_id q = template (order_id n))
           (payments (store_of R2))) = [Settlement]"
proof -
  let ?oid = "template (order_id n)"
  let ?row = "\<lparr>e_user_id = p_user_id p, e_course_id = p_course_id p, progress = 0\<rparr>"
  let ?upd = "map (\<lambda>q. if midtrans_order_id q = ?oid then q\<lparr>p_status := Settlement\<rparr> else q)"
  let ?d1 = "d\<lparr>payments := ?upd (payments d), enrollments := enrollments d @ [?row]\<rparr>"
  let ?out = "(json_response 200 SuccessBody, ?d1, [ConsoleLog ''Received Midtrans notification:''])"
  have st: "paymentStatus (transaction_status n) (fraud_status n) = Settlement"
    using assms(6) by (auto simp: paymentStatus_def)
  have r1: "R1 = ?out"
    unfolding R1_def
    using assms(8,10)
    by (simp add: handle_accepted [OF assms(3,4,5,7,9)] st Let_def insert_enrollment_def)
  have one: "filter (\<lambda>q. midtrans_order_id q = ?oid) (payments ?d1) = [p\<lparr>p_status := Settlement\<rparr>]"
    by (simp add: filter_updated assms(9))
  have same: "?upd (?upd (payments d)) = ?upd (payments d)"
    by (induction "payments d") auto
  have r2: "R2 = ?out"
    unfolding R2_def r1 store_of_def
    using assms(8)
    by (simp add: handle_accepted [OF assms(3,4,5,7) one] st Let_def insert_enrollment_def same
        duplicate_key_error_includes)
  show ?thesis
    by (simp add: r1 r2 response_of_def store_of_def filter_updated assms(9)
        not_list_ex_filter [OF assms(10)])
qed

text \<open>C3, witness: the settlement notification of the worked example, delivered twice.\<close>

theorem settlement_twice_witness:
  "response_of (handleNotification env_a (Inr (BodyFields settlement_a)) db_a) =
     json_response 200 SuccessBody \<and>
   response_of (handleNotification env_a (Inr (BodyFields settlement_a))
      (store_of (handleNotification env_a (Inr (BodyFields settlement_a)) db_a))) =
     json_response 200 SuccessBody \<and>
   filter (\<lambda>e. e_user_id e = p_user_id intent_a \<and> e_course_id e = p_course_id intent_a)
     (enrollments (store_of (handleNotification env_a (Inr (BodyFields settlement_a))
        (store_of (handleNotification env_a (Inr (BodyFields settlement_a)) db_a))))) = [enrolled_a] \<and>
   map p_status (filter (\<lambda>q. midtrans_order_id q = ''ORDER-1700000000000-a1b2c3d4'')
     (payments (store_of (handleNotification env_a (Inr (BodyFields settlement_a)) db_a)))) =
     [Settlement] \<and>
   map p_status (filter (\<lambda>q. midtrans_order_id q = ''ORDER-1700000000000-a1b2c3d4'')
     (payments (store_of (handleNotification env_a (Inr (BodyFields settlement_a))
        (store_of (handleNotification env_a (Inr (BodyFields settlement_a)) db_a)))))) = [Settlement]"
  using settlement_twice [where env = env_a and n = settlement_a and d = db_a and p = intent_a
      and k = key_a]
  by (simp add: fixtures order_a_signature)

subsection \<open>C4: the signature check\<close>

text \<open>
  C4. \<^verbatim>\<open>verifyMidtransSignature\<close> is true exactly when the provided signature equals, as a
  string, the lowercase hexadecimal rendering of the SHA-512 digest of the UTF-8 bytes of
  order id, status code, gross amount and server key concatenated without separators. Being
  a function of its five arguments, it is deterministic.
\<close>

theorem verify_is_hex_digest_equality:
  "verifyMidtransSignature (Some orderId) (Some statusCode) (Some grossAmount) (Some serverKey)
      (Some providedSignature) \<longleftrightarrow>
   lowercase_hex (sha512 (encode (orderId @ statusCode @ grossAmount @ serverKey))) =
     providedSignature"
proof -
  have "calculatedSignature (Some orderId) (Some statusCode) (Some grossAmount) (Some serverKey) =
          lowercase_hex (sha512 (encode (orderId @ statusCode @ grossAmount @ serverKey)))"
    by (simp add: calculatedSignature_hex template_def)
  then show ?thesis
    by (simp add: verifyMidtransSignature_def)
qed

subsection \<open>C5: a price mismatch creates nothing\<close>



subsection \<open>C6: the error text that reaches the client\<close>




subsection \<open>C7: the secret is checked before the signature key\<close>

text \<open>
  C7, as the code has it. The handler checks the server key first: without a configured key
  every body that parses is answered with 500 "Server configuration error", also one whose
  \<^verbatim>\<open>signature_key\<close> is absent and also the body \<^verbatim>\<open>null\<close>; with a configured key, a body
  other than \<^verbatim>\<open>null\<close> whose \<^verbatim>\<open>signature_key\<close> is absent or empty is answered with 401
  "Invalid request". The store is unchanged in both cases.
\<close>

theorem secret_checked_first:
  "(falsy (MIDTRANS_SERVER_KEY env) \<longrightarrow>
      response_of (handleNotification env (Inr b) d) =
        json_response 500 (ErrorBody ''Server configuration error'') \<and>
      store_of (handleNotification env (Inr b) d) = d) \<and>
   (\<not> falsy (MIDTRANS_SERVER_KEY env) \<and> falsy (signature_key n) \<longrightarrow>
      response_of (handleNotification env (Inr (BodyFields n)) d) =
        json_response 401 (ErrorBody ''Invalid request'') \<and>
      store_of (handleNotification env (Inr (BodyFields n)) d) = d)"
proof (intro conjI impI)
  assume "falsy (MIDTRANS_SERVER_KEY env)"
  then show "response_of (handleNotification env (Inr b) d) =
      json_response 500 (ErrorBody ''Server configuration error'')"
    and "store_of (handleNotification env (Inr b) d) = d"
    by (simp_all add: handle_misconfigured response_of_def store_of_def)
next
  assume "\<not> falsy (MIDTRANS_SERVER_KEY env) \<and> falsy (signature_key n)"
  then show "response_of (handleNotification env (Inr (BodyFields n)) d) =
      json_response 401 (ErrorBody ''Invalid request'')"
    and "store_of (handleNotification env (Inr (BodyFields n)) d) = d"
    by (simp_all add: handle_missing_signature response_of_def store_of_def)
qed

text \<open>
  C7, witness: a notification without \<^verbatim>\<open>signature_key\<close> and the body \<^verbatim>\<open>null\<close>, met without a
  server key, and the notification met with one.
\<close>

theorem secret_checked_first_witness:
  "response_of (handleNotification (env_a\<lparr>MIDTRANS_SERVER_KEY := None\<rparr>)
      (Inr (BodyFields (settlement_a\<lparr>signature_key := None\<rparr>))) db_a) =
     json_response 500 (ErrorBody ''Server configuration error'') \<and>
   response_of (handleNotification (env_a\<lparr>MIDTRANS_SERVER_KEY := None\<rparr>) (Inr BodyNull) db_a) =
     json_response 500 (ErrorBody ''Server configuration error'') \<and>
   response_of (handleNotification env_a
      (Inr (BodyFields (settlement_a\<lparr>signature_key := None\<rparr>))) db_a) =
     json_response 401 (ErrorBody ''Invalid request'')"
  using secret_checked_first [of "env_a\<lparr>MIDTRANS_SERVER_KEY := None\<rparr>"
      "BodyFields (settlement_a\<lparr>signature_key := None\<rparr>)" db_a]
    secret_checked_first [of "env_a\<lparr>MIDTRANS_SERVER_KEY := None\<rparr>" BodyNull db_a]
    secret_checked_first [of env_a _ db_a "settlement_a\<lparr>signature_key := None\<rparr>"]
  by (simp add: fixtures)

text \<open>
  C7, counterexample to the claim as stated: a notification without \<^verbatim>\<open>signature_key\<close>, with
  no server key configured, is answered with 500, not 401.
\<close>

theorem missing_signature_without_secret:
  "http_status (response_of (handleNotification (env_a\<lparr>MIDTRANS_SERVER_KEY := None\<rparr>)
      (Inr (BodyFields (settlement_a\<lparr>signature_key := None\<rparr>))) db_a)) = 500"
  by (simp add: handleNotification_def webhook_try_def response_of_def json_response_def
      env_a_def)

subsection \<open>C8: an unknown order id is an error\<close>

text \<open>
  C8. A validly signed notification whose order id no stored payment has is answered with an
  error, status 400 and "Failed to update payment", and the store is unchanged: no payment
  changes and no enrollment is created.
\<close>

theorem unknown_order_rejected:
  assumes "MIDTRANS_SERVER_KEY env = Some k" "k \<noteq> []"
    and "signature_key n =
           Some (calculatedSignature (order_id n) (status_code n) (gross_amount n) (Some k))"
    and "filter (\<lambda>p. midtrans_order_id p = template (order_id n)) (payments d) = []"
  shows "response_of (handleNotification env (Inr (BodyFields n)) d) =
           json_response 400 (ErrorBody ''Failed to update payment'') \<and>
         store_of (handleNotification env (Inr (BodyFields n)) d) = d"
proof -
  obtain e where "update_payment_status (update_fault env) (template (order_id n))
      (paymentStatus (transaction_status n) (fraud_status n)) d = (Inl e, d)"
    using update_none [OF assms(4)] by blast
  then have "apply_transition env n d =
      (Inl ''Failed to update payment'', d, [ConsoleError ''Error updating payment:'' (Some e)])"
    by (simp add: apply_transition_def)
  then show ?thesis
    by (simp add: handleNotification_def try_authenticated [OF assms(1-3)]
        response_of_def store_of_def)
qed

text \<open>
  C8, witness: the settlement notification of the worked example on a store without
  payments.
\<close>

theorem unknown_order_rejected_witness:
  "response_of (handleNotification env_a (Inr (BodyFields settlement_a)) (db_a\<lparr>payments := []\<rparr>)) =
     json_response 400 (ErrorBody ''Failed to update payment'') \<and>
   store_of (handleNotification env_a (Inr (BodyFields settlement_a)) (db_a\<lparr>payments := []\<rparr>)) =
     db_a\<lparr>payments := []\<rparr>"
  using unknown_order_rejected [where env = env_a and k = key_a and n = settlement_a
      and d = "db_a\<lparr>payments := []\<rparr>"]
  by (simp add: fixtures order_a_signature)

subsection \<open>C9: the gross amount only enters the signature\<close>

text \<open>
  C9. Two validly signed notifications that differ only in \<^verbatim>\<open>gross_amount\<close>, each with the
  signature for its own amount, have the same outcome on the same store: the same response,
  the same store afterwards (payment status and enrollment) and the same console lines. The
  amount of the stored payment is not read.
\<close>

theorem gross_amount_only_signs:
  assumes "MIDTRANS_SERVER_KEY env = Some k" "k \<noteq> []"
    and "signature_key n =
           Some (calculatedSignature (order_id n) (status_code n) (gross_amount n) (Some k))"
    and "s' = calculatedSignature (order_id n) (status_code n) g' (Some k)"
  shows "handleNotification env (Inr (BodyFields (n\<lparr>gross_amount := g', signature_key := Some s'\<rparr>))) d =
         handleNotification env (Inr (BodyFields n)) d"
proof -
  let ?n' = "n\<lparr>gross_amount := g', signature_key := Some s'\<rparr>"
  have "signature_key ?n' =
          Some (calculatedSignature (order_id ?n') (status_code ?n') (gross_amount ?n') (Some k))"
    using assms(4) by simp
  from try_authenticated [OF assms(1,2) this] try_authenticated [OF assms(1-3)]
  show ?thesis
    by (simp add: handleNotification_def apply_transition_gross_amount)
qed

text \<open>
  C9, witness: the settlement notification of the worked example and the one for the amount
  150000.00, signed for that amount.
\<close>

theorem gross_amount_only_signs_witness:
  "handleNotification env_a
     (Inr (BodyFields (settlement_a\<lparr>gross_amount := Some ''150000.00'',
             signature_key :=
               Some (calculatedSignature (Some ''ORDER-1700000000000-a1b2c3d4'') (Some ''200'')
                       (Some ''150000.00'') (Some key_a))\<rparr>))) db_a =
   handleNotification env_a (Inr (BodyFields settlement_a)) db_a"
  using gross_amount_only_signs [where env = env_a and k = key_a and n = settlement_a
      and g' = "Some ''150000.00''" and d = db_a
      and s' = "calculatedSignature (Some ''ORDER-1700000000000-a1b2c3d4'') (Some ''200'')
                       (Some ''150000.00'') (Some key_a)"]
  by (simp add: env_a_def settlement_a_def signature_a_def order_a_signature key_a_def)

subsection \<open>C10: a failed enrollment insert is not reported\<close>

text \<open>
  C10, as the code has it. An authenticated notification that maps to settlement, for an
  order id with exactly one payment, on a store that takes the update, is answered with 200
  and success whether or not the enrollment insert fails. When the insert fails, no
  enrollment is added and nothing is thrown; the error is written to the console unless its
  message contains "duplicate", and then nothing is written about it.
\<close>

theorem enrollment_errors_swallowed:
  fixes env n d p
  defines "R \<equiv> handleNotification env (Inr (BodyFields n)) d"
  assumes "MIDTRANS_SERVER_KEY env = Some k" "k \<noteq> []"
    and "signature_key n =
           Some (calculatedSignature (order_id n) (status_code n) (gross_amount n) (Some k))"
    and "paymentStatus (transaction_status n) (fraud_status n) = Settlement"
    and "update_fault env = None"
    and "filter (\<lambda>q. midtrans_order_id q = template (order_id n)) (payments d) = [p]"
  shows "response_of R = json_response 200 SuccessBody \<and>
         (\<forall>m. insert_fault env = Some m \<longrightarrow>
              enrollments (store_of R) = enrollments d \<and>
              console_of R =
                ConsoleLog ''Received Midtrans notification:'' #
                (if includes_str m ''duplicate'' then []
                 else [ConsoleError ''Error creating enrollment:'' (Some m)])) \<and>
         (insert_fault env = None \<and>
          list_ex (\<lambda>e. e_user_id e = p_user_id p \<and> e_course_id e = p_course_id p)
            (enrollments d) \<longrightarrow>
              enrollments (store_of R) = enrollments d \<and>
              console_of R = [ConsoleLog ''Received Midtrans notification:''])"
  unfolding R_def
  by (simp add: handle_accepted [OF assms(2,3,4,6,7)] assms(5) Let_def response_of_def
      store_of_def console_of_def insert_enrollment_def duplicate_key_error_includes)

text \<open>
  C10, witness: the settlement notification of the worked example when the store fails on
  the insert with "connection reset by peer", and when the user is already enrolled.
\<close>

theorem enrollment_errors_swallowed_witness:
  "response_of (handleNotification (env_a\<lparr>insert_fault := Some ''connection reset by peer''\<rparr>)
      (Inr (BodyFields settlement_a)) db_a) = json_response 200 SuccessBody \<and>
   console_of (handleNotification (env_a\<lparr>insert_fault := Some ''connection reset by peer''\<rparr>)
      (Inr (BodyFields settlement_a)) db_a) =
     [ConsoleLog ''Received Midtrans notification:'',
      ConsoleError ''Error creating enrollment:'' (Some ''connection reset by peer'')] \<and>
   enrollments (store_of (handleNotification
      (env_a\<lparr>insert_fault := Some ''connection reset by peer''\<rparr>) (Inr (BodyFields settlement_a)) db_a)) =
     [] \<and>
   console_of (handleNotification env_a (Inr (BodyFields settlement_a))
      (db_a\<lparr>enrollments := [enrolled_a]\<rparr>)) = [ConsoleLog ''Received Midtrans notification:'']"
  using enrollment_errors_swallowed
      [where env = "env_a\<lparr>insert_fault := Some ''connection reset by peer''\<rparr>"
        and k = key_a and n = settlement_a and d = db_a and p = intent_a]
    enrollment_errors_swallowed [where env = env_a and k = key_a and n = settlement_a
      and d = "db_a\<lparr>enrollments := [enrolled_a]\<rparr>" and p = intent_a]
  by (simp add: fixtures order_a_signature paymentStatus_def)

text \<open>
  C10, counterexample to the claim as stated: the user of the worked example is already
  enrolled, the insert fails with the duplicate-key error, the answer is success, and the
  console holds no line about the error.
\<close>

theorem duplicate_error_not_logged:
  "fst (insert_enrollment None enrolled_a
          (db_a\<lparr>payments := [intent_a\<lparr>p_status := Settlement\<rparr>],
                enrollments := [enrolled_a]\<rparr>)) = Some duplicate_key_error \<and>
   response_of (handleNotification env_a (Inr (BodyFields settlement_a))
      (db_a\<lparr>enrollments := [enrolled_a]\<rparr>)) = json_response 200 SuccessBody \<and>
   console_of (handleNotification env_a (Inr (BodyFields settlement_a))
      (db_a\<lparr>enrollments := [enrolled_a]\<rparr>)) = [ConsoleLog ''Received Midtrans notification:'']"
  by (simp add: handleNotification_def webhook_try_def apply_transition_def
      update_payment_status_def insert_enrollment_def paymentStatus_def
      verifyMidtransSignature_def response_of_def console_of_def fixtures order_a_signature
      duplicate_key_error_includes)

end
